theory Spec2Isabelle
  imports Main "HOL-Library.Sublist"
begin

section \<open>Common types (konstytucja.common.types, konstytucja.common.errors)\<close>

text \<open>
  Modelled from the spec: the modules \<open>konstytucja/common/types.py\<close> and
  \<open>konstytucja/common/errors.py\<close> are not among the source files; only their uses are.
  The enumerations below list the members the source files use, under the names they use.
  A vote record has the fields of the spec's data model (chamber, votes for, against and
  abstaining, statutory member count), and \<open>total_present\<close> is derived as for + against +
  abstain. Python integers are unbounded, so every count is an \<open>int\<close>.
\<close>

datatype Chamber = SEJM | SENATE

datatype MajorityType = SIMPLE | ABSOLUTE | TWO_THIRDS | THREE_FIFTHS

record VoteRecord =
  chamber :: Chamber
  votes_for :: int
  votes_against :: int
  votes_abstain :: int
  members :: int

definition total_present :: "VoteRecord \<Rightarrow> int" where
  "total_present vote = votes_for vote + votes_against vote + votes_abstain vote"

text \<open>
  Modelled from the spec: the statutory member count is a chamber-specific constant; the
  tests fix it to 460 for the Sejm and 100 for the Senate, and build a vote record from the
  chamber and the three counts (abstentions default to 0).
\<close>

definition statutory_members :: "Chamber \<Rightarrow> int" where
  "statutory_members c = (case c of SEJM \<Rightarrow> 460 | SENATE \<Rightarrow> 100)"

definition VoteRecord_new :: "Chamber \<Rightarrow> int \<Rightarrow> int \<Rightarrow> int \<Rightarrow> VoteRecord" where
  "VoteRecord_new c f a ab =
     \<lparr>chamber = c, votes_for = f, votes_against = a, votes_abstain = ab,
      members = statutory_members c\<rparr>"

text \<open>
  An exception is a value: its class, its message and the article it cites. A failed
  \<open>assert\<close> statement raises \<open>AssertionError\<close>.
\<close>

datatype error =
    is_QuorumError: QuorumError (message: string) (article: string)
  | is_MajorityError: MajorityError (message: string) (article: string)
  | is_LegislativeProcessError: LegislativeProcessError (message: string) (article: string)
  | is_GovernmentFormationError: GovernmentFormationError (message: string) (article: string)
  | is_AmendmentError: AmendmentError (message: string) (article: string)
  | is_AssertionError: AssertionError

text \<open>
  A method that mutates its object and may raise returns the outcome of the call (the
  exception, or \<open>()\<close> for a normal return) together with the object as the call leaves it.
\<close>

type_synonym 's outcome = "(error + unit) \<times> 's"

definition returns :: "error + 'a \<Rightarrow> bool" where
  "returns r = (case r of Inl e \<Rightarrow> False | Inr x \<Rightarrow> True)"

definition raises :: "(error \<Rightarrow> bool) \<Rightarrow> error + 'a \<Rightarrow> bool" where
  "raises cls r = (case r of Inl e \<Rightarrow> cls e | Inr x \<Rightarrow> False)"

subsection \<open>Python string formatting\<close>

text \<open>\<open>str(n)\<close> of an integer: decimal digits, with a leading minus sign when negative.\<close>

fun digits10 :: "nat \<Rightarrow> string" where
  "digits10 n =
     (if n < 10 then [''0123456789'' ! n]
      else digits10 (n div 10) @ [''0123456789'' ! (n mod 10)])"

declare digits10.simps [simp del]

definition str_int :: "int \<Rightarrow> string" where
  "str_int i = (if i < 0 then CHR ''-'' # digits10 (nat (- i)) else digits10 (nat i))"

text \<open>\<open>sep.join(xs)\<close>.\<close>

fun join :: "string \<Rightarrow> string list \<Rightarrow> string" where
  "join sep [] = []"
| "join sep [x] = x"
| "join sep (x # y # ys) = x @ sep @ join sep (y # ys)"

text \<open>The em dash of the source's messages, as its three UTF-8 bytes.\<close>

definition em_dash :: string where
  "em_dash = [CHR 0xE2, CHR 0x80, CHR 0x94]"

section \<open>Voting and quorum logic (konstytucja/common/voting.py)\<close>

definition check_quorum :: "VoteRecord \<Rightarrow> error + unit" where
  "check_quorum vote =
     (if total_present vote * 2 < members vote then
        Inl (QuorumError
          (''Quorum not met: '' @ str_int (total_present vote) @ '' present, ''
            @ ''need at least '' @ str_int ((members vote + 1) div 2) @ '' ''
            @ ''of '' @ str_int (members vote) @ '' statutory members'')
          ''120'')
      else Inr ())"

fun check_majority :: "VoteRecord \<Rightarrow> MajorityType \<Rightarrow> error + bool" where
  "check_majority vote SIMPLE =
     (let passed = votes_for vote > votes_against vote in
      if \<not> passed then
        Inl (MajorityError
          (''Simple majority not reached: '' @ str_int (votes_for vote) @ '' for, ''
            @ str_int (votes_against vote) @ '' against'')
          ''120'')
      else Inr True)"
| "check_majority vote ABSOLUTE =
     (let passed = votes_for vote * 2 > members vote in
      if \<not> passed then
        Inl (MajorityError
          (''Absolute majority not reached: '' @ str_int (votes_for vote) @ '' for, ''
            @ ''need more than '' @ str_int (members vote div 2) @ '' ''
            @ ''of '' @ str_int (members vote) @ '' statutory members'')
          ''120'')
      else Inr True)"
| "check_majority vote TWO_THIRDS =
     (let passed = votes_for vote * 3 \<ge> total_present vote * 2 in
      if \<not> passed then
        Inl (MajorityError
          (''Two-thirds majority not reached: '' @ str_int (votes_for vote) @ '' for ''
            @ ''of '' @ str_int (total_present vote) @ '' present'')
          ''235'')
      else Inr True)"
| "check_majority vote THREE_FIFTHS =
     (let passed = votes_for vote * 5 \<ge> total_present vote * 3 in
      if \<not> passed then
        Inl (MajorityError
          (''Three-fifths majority not reached: '' @ str_int (votes_for vote) @ '' for ''
            @ ''of '' @ str_int (total_present vote) @ '' present'')
          ''120'')
      else Inr True)"

definition passes_vote :: "VoteRecord \<Rightarrow> MajorityType \<Rightarrow> bool \<Rightarrow> error + bool" where
  "passes_vote vote majority_type require_quorum =
     (if require_quorum then
        (case check_quorum vote of
           Inl e \<Rightarrow> Inl e
         | Inr u \<Rightarrow> check_majority vote majority_type)
      else check_majority vote majority_type)"

text \<open>
  The thresholds as the specification words them, kind by kind, to compare
  \<open>check_majority\<close> with.
\<close>

fun majority_inequality :: "VoteRecord \<Rightarrow> MajorityType \<Rightarrow> bool" where
  "majority_inequality vote SIMPLE = (votes_for vote > votes_against vote)"
| "majority_inequality vote ABSOLUTE = (votes_for vote * 2 > members vote)"
| "majority_inequality vote TWO_THIRDS = (votes_for vote * 3 \<ge> total_present vote * 2)"
| "majority_inequality vote THREE_FIFTHS = (votes_for vote * 5 \<ge> total_present vote * 3)"

section \<open>Government formation (konstytucja/chapter_06_council_of_ministers.py)\<close>

text \<open>
  Modelled from the spec: the enumeration \<open>GovernmentFormationStage\<close> of
  \<open>konstytucja/common/types.py\<close>, with the members the class uses; \<open>name\<close> is the
  member's name, as Python's \<open>Enum.name\<close>.
\<close>

datatype GovernmentFormationStage =
  PRESIDENT_DESIGNATES | CONFIDENCE_VOTE | SEJM_ELECTS | PRESIDENT_APPOINTS_RETRY
  | APPOINTED | FAILED

fun GovernmentFormationStage_name :: "GovernmentFormationStage \<Rightarrow> string" where
  "GovernmentFormationStage_name PRESIDENT_DESIGNATES = ''PRESIDENT_DESIGNATES''"
| "GovernmentFormationStage_name CONFIDENCE_VOTE = ''CONFIDENCE_VOTE''"
| "GovernmentFormationStage_name SEJM_ELECTS = ''SEJM_ELECTS''"
| "GovernmentFormationStage_name PRESIDENT_APPOINTS_RETRY = ''PRESIDENT_APPOINTS_RETRY''"
| "GovernmentFormationStage_name APPOINTED = ''APPOINTED''"
| "GovernmentFormationStage_name FAILED = ''FAILED''"

text \<open>The dataclass \<open>GovernmentFormation\<close>: its only field is the stage.\<close>

record GovernmentFormation =
  stage :: GovernmentFormationStage

definition GovernmentFormation_new :: GovernmentFormation where
  "GovernmentFormation_new = \<lparr>GovernmentFormation.stage = PRESIDENT_DESIGNATES\<rparr>"

text \<open>\<open>GovernmentFormation._require_stage\<close>.\<close>

definition require_stage_gf ::
  "GovernmentFormation \<Rightarrow> GovernmentFormationStage list \<Rightarrow> string \<Rightarrow> error + unit" where
  "require_stage_gf self expected art =
     (if GovernmentFormation.stage self \<notin> set expected then
        (let expected_names = join '', '' (map GovernmentFormationStage_name expected) in
         Inl (GovernmentFormationError
           (''Cannot proceed: formation is at ''
             @ GovernmentFormationStage_name (GovernmentFormation.stage self) @ '', ''
             @ ''expected '' @ expected_names @ ''.'')
           art))
      else Inr ())"

definition president_designates :: "GovernmentFormation \<Rightarrow> GovernmentFormation outcome" where
  "president_designates self =
     (case require_stage_gf self [PRESIDENT_DESIGNATES] ''154(1)'' of
        Inl e \<Rightarrow> (Inl e, self)
      | Inr u \<Rightarrow> (Inr (), self\<lparr>GovernmentFormation.stage := CONFIDENCE_VOTE\<rparr>))"

text \<open>
  The three confidence votes catch every exception of \<open>passes_vote\<close>
  (\<open>except Exception\<close>) and set the stage instead.
\<close>

definition sejm_confidence_first_attempt ::
  "VoteRecord \<Rightarrow> GovernmentFormation \<Rightarrow> GovernmentFormation outcome" where
  "sejm_confidence_first_attempt vote self =
     (case require_stage_gf self [CONFIDENCE_VOTE] ''154(2)'' of
        Inl e \<Rightarrow> (Inl e, self)
      | Inr u \<Rightarrow>
          (case passes_vote vote ABSOLUTE True of
             Inr b \<Rightarrow> (Inr (), self\<lparr>GovernmentFormation.stage := APPOINTED\<rparr>)
           | Inl e \<Rightarrow> (Inr (), self\<lparr>GovernmentFormation.stage := SEJM_ELECTS\<rparr>)))"

definition sejm_elects_pm ::
  "VoteRecord \<Rightarrow> GovernmentFormation \<Rightarrow> GovernmentFormation outcome" where
  "sejm_elects_pm vote self =
     (case require_stage_gf self [SEJM_ELECTS] ''155(1)'' of
        Inl e \<Rightarrow> (Inl e, self)
      | Inr u \<Rightarrow>
          (case passes_vote vote ABSOLUTE True of
             Inr b \<Rightarrow> (Inr (), self\<lparr>GovernmentFormation.stage := APPOINTED\<rparr>)
           | Inl e \<Rightarrow> (Inr (), self\<lparr>GovernmentFormation.stage := PRESIDENT_APPOINTS_RETRY\<rparr>)))"

definition president_appoints_third_attempt ::
  "VoteRecord \<Rightarrow> GovernmentFormation \<Rightarrow> GovernmentFormation outcome" where
  "president_appoints_third_attempt vote self =
     (case require_stage_gf self [PRESIDENT_APPOINTS_RETRY] ''155(2)'' of
        Inl e \<Rightarrow> (Inl e, self)
      | Inr u \<Rightarrow>
          (case passes_vote vote SIMPLE True of
             Inr b \<Rightarrow> (Inr (), self\<lparr>GovernmentFormation.stage := APPOINTED\<rparr>)
           | Inl e \<Rightarrow> (Inr (), self\<lparr>GovernmentFormation.stage := FAILED\<rparr>)))"

text \<open>
  A caller drives an instance by calling its methods one after the other. A call names
  the method and its argument; a script of calls runs until one of them raises.
\<close>

datatype GovernmentFormation_call =
    President_designates
  | Sejm_confidence_first_attempt VoteRecord
  | Sejm_elects_pm VoteRecord
  | President_appoints_third_attempt VoteRecord

fun call_gf :: "GovernmentFormation_call \<Rightarrow> GovernmentFormation \<Rightarrow> GovernmentFormation outcome" where
  "call_gf President_designates = president_designates"
| "call_gf (Sejm_confidence_first_attempt vote) = sejm_confidence_first_attempt vote"
| "call_gf (Sejm_elects_pm vote) = sejm_elects_pm vote"
| "call_gf (President_appoints_third_attempt vote) = president_appoints_third_attempt vote"

fun run_gf :: "GovernmentFormation_call list \<Rightarrow> GovernmentFormation \<Rightarrow> GovernmentFormation outcome" where
  "run_gf [] self = (Inr (), self)"
| "run_gf (c # cs) self =
     (case call_gf c self of
        (Inl e, self') \<Rightarrow> (Inl e, self')
      | (Inr u, self') \<Rightarrow> run_gf cs self')"

text \<open>
  The stages a script visits: the stage before each call and the stage the last call
  leaves; the list ends where a call raises.
\<close>

fun trace_gf :: "GovernmentFormation_call list \<Rightarrow> GovernmentFormation \<Rightarrow> GovernmentFormationStage list" where
  "trace_gf [] self = [GovernmentFormation.stage self]"
| "trace_gf (c # cs) self =
     GovernmentFormation.stage self #
       (case call_gf c self of
          (Inl e, self') \<Rightarrow> []
        | (Inr u, self') \<Rightarrow> trace_gf cs self')"

text \<open>The stages each method passes to \<open>_require_stage\<close>.\<close>

fun source_stages_gf :: "GovernmentFormation_call \<Rightarrow> GovernmentFormationStage list" where
  "source_stages_gf President_designates = [PRESIDENT_DESIGNATES]"
| "source_stages_gf (Sejm_confidence_first_attempt vote) = [CONFIDENCE_VOTE]"
| "source_stages_gf (Sejm_elects_pm vote) = [SEJM_ELECTS]"
| "source_stages_gf (President_appoints_third_attempt vote) = [PRESIDENT_APPOINTS_RETRY]"

section \<open>Constitutional amendments (konstytucja/chapter_12_amendments.py)\<close>

text \<open>
  Modelled from the spec: the enumeration \<open>AmendmentStage\<close> of
  \<open>konstytucja/common/types.py\<close>, with the members the class uses.
\<close>

datatype AmendmentStage =
  INITIATED | FIRST_READING_SEJM | SEJM_PASSED | SENATE_PASSED | REFERENDUM_REQUESTED
  | REFERENDUM_PASSED | PRESIDENT_SIGNS | ADOPTED | REJECTED

fun AmendmentStage_name :: "AmendmentStage \<Rightarrow> string" where
  "AmendmentStage_name AmendmentStage.INITIATED = ''INITIATED''"
| "AmendmentStage_name AmendmentStage.FIRST_READING_SEJM = ''FIRST_READING_SEJM''"
| "AmendmentStage_name AmendmentStage.SEJM_PASSED = ''SEJM_PASSED''"
| "AmendmentStage_name AmendmentStage.SENATE_PASSED = ''SENATE_PASSED''"
| "AmendmentStage_name AmendmentStage.REFERENDUM_REQUESTED = ''REFERENDUM_REQUESTED''"
| "AmendmentStage_name AmendmentStage.REFERENDUM_PASSED = ''REFERENDUM_PASSED''"
| "AmendmentStage_name AmendmentStage.PRESIDENT_SIGNS = ''PRESIDENT_SIGNS''"
| "AmendmentStage_name AmendmentStage.ADOPTED = ''ADOPTED''"
| "AmendmentStage_name AmendmentStage.REJECTED = ''REJECTED''"

definition INITIATORS :: "string list" where
  "INITIATORS = [''1/5 Sejm deputies'', ''Senate'', ''President'']"

definition REFERENDUM_CHAPTERS :: "int set" where
  "REFERENDUM_CHAPTERS = {1, 2, 12}"

record AmendmentProcess =
  title :: string
  initiator :: string
  affected_chapters :: "int set"
  stage :: AmendmentStage
  referendum_requested :: bool

text \<open>
  The constructor with its \<open>__post_init__\<close> check; the message ends in the \<open>repr\<close> of
  the tuple \<open>INITIATORS\<close>.
\<close>

definition AmendmentProcess_new :: "string \<Rightarrow> string \<Rightarrow> int set \<Rightarrow> error + AmendmentProcess" where
  "AmendmentProcess_new t i chapters =
     (if i \<notin> set INITIATORS then
        Inl (AmendmentError
          (''Invalid initiator '' @ [CHR 0x27] @ i @ [CHR 0x27] @ '': ''
            @ ''must be one of ('1/5 Sejm deputies', 'Senate', 'President')'')
          ''235(1)'')
      else
        Inr \<lparr>title = t, initiator = i, affected_chapters = chapters,
             stage = AmendmentStage.INITIATED, referendum_requested = False\<rparr>)"

definition touches_protected_chapters :: "AmendmentProcess \<Rightarrow> bool" where
  "touches_protected_chapters self = (affected_chapters self \<inter> REFERENDUM_CHAPTERS \<noteq> {})"

definition first_reading :: "AmendmentProcess \<Rightarrow> AmendmentProcess outcome" where
  "first_reading self =
     (if AmendmentProcess.stage self \<noteq> AmendmentStage.INITIATED then
        (Inl (AmendmentError
           (''Cannot start first reading from stage ''
             @ AmendmentStage_name (AmendmentProcess.stage self))
           ''235(3)''), self)
      else (Inr (), self\<lparr>AmendmentProcess.stage := AmendmentStage.FIRST_READING_SEJM\<rparr>))"

text \<open>
  The two votes catch \<open>QuorumError\<close> and \<open>MajorityError\<close>, set the stage to REJECTED and
  re-raise; any other exception would pass through with the object untouched.
\<close>

definition sejm_vote_amendment :: "VoteRecord \<Rightarrow> AmendmentProcess \<Rightarrow> AmendmentProcess outcome" where
  "sejm_vote_amendment vote self =
     (if AmendmentProcess.stage self \<noteq> AmendmentStage.FIRST_READING_SEJM then
        (Inl (AmendmentError
           (''Cannot hold Sejm vote from stage ''
             @ AmendmentStage_name (AmendmentProcess.stage self))
           ''235(4)''), self)
      else if chamber vote \<noteq> SEJM then (Inl AssertionError, self)
      else
        (case passes_vote vote TWO_THIRDS True of
           Inl e \<Rightarrow>
             (if is_QuorumError e \<or> is_MajorityError e
              then (Inl e, self\<lparr>AmendmentProcess.stage := AmendmentStage.REJECTED\<rparr>)
              else (Inl e, self))
         | Inr b \<Rightarrow> (Inr (), self\<lparr>AmendmentProcess.stage := AmendmentStage.SEJM_PASSED\<rparr>)))"

definition senate_vote :: "VoteRecord \<Rightarrow> AmendmentProcess \<Rightarrow> AmendmentProcess outcome" where
  "senate_vote vote self =
     (if AmendmentProcess.stage self \<noteq> AmendmentStage.SEJM_PASSED then
        (Inl (AmendmentError
           (''Cannot hold Senate vote from stage ''
             @ AmendmentStage_name (AmendmentProcess.stage self))
           ''235(4)''), self)
      else if chamber vote \<noteq> SENATE then (Inl AssertionError, self)
      else
        (case passes_vote vote ABSOLUTE True of
           Inl e \<Rightarrow>
             (if is_QuorumError e \<or> is_MajorityError e
              then (Inl e, self\<lparr>AmendmentProcess.stage := AmendmentStage.REJECTED\<rparr>)
              else (Inl e, self))
         | Inr b \<Rightarrow> (Inr (), self\<lparr>AmendmentProcess.stage := AmendmentStage.SENATE_PASSED\<rparr>)))"

definition request_referendum :: "AmendmentProcess \<Rightarrow> AmendmentProcess outcome" where
  "request_referendum self =
     (if AmendmentProcess.stage self \<noteq> AmendmentStage.SENATE_PASSED then
        (Inl (AmendmentError
           (''Cannot request referendum from stage ''
             @ AmendmentStage_name (AmendmentProcess.stage self))
           ''235(6)''), self)
      else if \<not> touches_protected_chapters self then
        (Inl (AmendmentError
           ''Referendum only available for amendments to Chapters I, II, or XII''
           ''235(6)''), self)
      else
        (Inr (), self\<lparr>referendum_requested := True,
                       AmendmentProcess.stage := AmendmentStage.REFERENDUM_REQUESTED\<rparr>))"

definition referendum_result :: "bool \<Rightarrow> AmendmentProcess \<Rightarrow> AmendmentProcess outcome" where
  "referendum_result approved self =
     (if AmendmentProcess.stage self \<noteq> AmendmentStage.REFERENDUM_REQUESTED then
        (Inl (AmendmentError
           (''Cannot record referendum result from stage ''
             @ AmendmentStage_name (AmendmentProcess.stage self))
           ''235(6)''), self)
      else if approved then
        (Inr (), self\<lparr>AmendmentProcess.stage := AmendmentStage.REFERENDUM_PASSED\<rparr>)
      else (Inr (), self\<lparr>AmendmentProcess.stage := AmendmentStage.REJECTED\<rparr>))"

definition president_sign :: "AmendmentProcess \<Rightarrow> AmendmentProcess outcome" where
  "president_sign self =
     (let allowed_stages = {AmendmentStage.SENATE_PASSED, AmendmentStage.REFERENDUM_PASSED} in
      if AmendmentProcess.stage self \<notin> allowed_stages then
        (Inl (AmendmentError
           (''Cannot sign from stage '' @ AmendmentStage_name (AmendmentProcess.stage self))
           ''235(7)''), self)
      else (Inr (), self\<lparr>AmendmentProcess.stage := AmendmentStage.PRESIDENT_SIGNS\<rparr>))"

definition complete :: "AmendmentProcess \<Rightarrow> AmendmentProcess outcome" where
  "complete self =
     (if AmendmentProcess.stage self \<noteq> AmendmentStage.PRESIDENT_SIGNS then
        (Inl (AmendmentError
           (''Cannot complete from stage '' @ AmendmentStage_name (AmendmentProcess.stage self))
           ''235''), self)
      else (Inr (), self\<lparr>AmendmentProcess.stage := AmendmentStage.ADOPTED\<rparr>))"

datatype AmendmentProcess_call =
    First_reading
  | Sejm_vote_amendment VoteRecord
  | Senate_vote VoteRecord
  | Request_referendum
  | Referendum_result bool
  | President_sign
  | Complete

fun call_amendment :: "AmendmentProcess_call \<Rightarrow> AmendmentProcess \<Rightarrow> AmendmentProcess outcome" where
  "call_amendment First_reading = first_reading"
| "call_amendment (Sejm_vote_amendment vote) = sejm_vote_amendment vote"
| "call_amendment (Senate_vote vote) = senate_vote vote"
| "call_amendment Request_referendum = request_referendum"
| "call_amendment (Referendum_result approved) = referendum_result approved"
| "call_amendment President_sign = president_sign"
| "call_amendment Complete = complete"

fun run_amendment :: "AmendmentProcess_call list \<Rightarrow> AmendmentProcess \<Rightarrow> AmendmentProcess outcome" where
  "run_amendment [] self = (Inr (), self)"
| "run_amendment (c # cs) self =
     (case call_amendment c self of
        (Inl e, self') \<Rightarrow> (Inl e, self')
      | (Inr u, self') \<Rightarrow> run_amendment cs self')"

text \<open>
  The stages each method's first check admits, and the words its message starts with.
\<close>

fun source_stages_amendment :: "AmendmentProcess_call \<Rightarrow> AmendmentStage list" where
  "source_stages_amendment First_reading = [AmendmentStage.INITIATED]"
| "source_stages_amendment (Sejm_vote_amendment vote) = [AmendmentStage.FIRST_READING_SEJM]"
| "source_stages_amendment (Senate_vote vote) = [AmendmentStage.SEJM_PASSED]"
| "source_stages_amendment Request_referendum = [AmendmentStage.SENATE_PASSED]"
| "source_stages_amendment (Referendum_result approved) = [AmendmentStage.REFERENDUM_REQUESTED]"
| "source_stages_amendment President_sign =
     [AmendmentStage.SENATE_PASSED, AmendmentStage.REFERENDUM_PASSED]"
| "source_stages_amendment Complete = [AmendmentStage.PRESIDENT_SIGNS]"

fun refusal_amendment :: "AmendmentProcess_call \<Rightarrow> string" where
  "refusal_amendment First_reading = ''Cannot start first reading from stage ''"
| "refusal_amendment (Sejm_vote_amendment vote) = ''Cannot hold Sejm vote from stage ''"
| "refusal_amendment (Senate_vote vote) = ''Cannot hold Senate vote from stage ''"
| "refusal_amendment Request_referendum = ''Cannot request referendum from stage ''"
| "refusal_amendment (Referendum_result approved) = ''Cannot record referendum result from stage ''"
| "refusal_amendment President_sign = ''Cannot sign from stage ''"
| "refusal_amendment Complete = ''Cannot complete from stage ''"

section \<open>The legislative process (konstytucja/legislative_process.py)\<close>

text \<open>
  Modelled from the spec: the enumeration \<open>BillStage\<close> and the dataclass \<open>Bill\<close> of
  \<open>konstytucja/common/types.py\<close>, with the members the class uses and the two fields the
  tests construct a bill from.
\<close>

datatype BillStage =
  INITIATED | SEJM_DELIBERATION | SEJM_PASSED | SENATE_DELIBERATION | SENATE_PASSED
  | SENATE_AMENDED | SENATE_REJECTED | SEJM_OVERRIDE_VOTE | PRESIDENT_REVIEW | SIGNED
  | VETOED | REFERRED_TO_TRIBUNAL | PARTIALLY_UNCONSTITUTIONAL | VETO_OVERRIDDEN
  | ENACTED | REJECTED

fun BillStage_name :: "BillStage \<Rightarrow> string" where
  "BillStage_name BillStage.INITIATED = ''INITIATED''"
| "BillStage_name BillStage.SEJM_DELIBERATION = ''SEJM_DELIBERATION''"
| "BillStage_name BillStage.SEJM_PASSED = ''SEJM_PASSED''"
| "BillStage_name BillStage.SENATE_DELIBERATION = ''SENATE_DELIBERATION''"
| "BillStage_name BillStage.SENATE_PASSED = ''SENATE_PASSED''"
| "BillStage_name BillStage.SENATE_AMENDED = ''SENATE_AMENDED''"
| "BillStage_name BillStage.SENATE_REJECTED = ''SENATE_REJECTED''"
| "BillStage_name BillStage.SEJM_OVERRIDE_VOTE = ''SEJM_OVERRIDE_VOTE''"
| "BillStage_name BillStage.PRESIDENT_REVIEW = ''PRESIDENT_REVIEW''"
| "BillStage_name BillStage.SIGNED = ''SIGNED''"
| "BillStage_name BillStage.VETOED = ''VETOED''"
| "BillStage_name BillStage.REFERRED_TO_TRIBUNAL = ''REFERRED_TO_TRIBUNAL''"
| "BillStage_name BillStage.PARTIALLY_UNCONSTITUTIONAL = ''PARTIALLY_UNCONSTITUTIONAL''"
| "BillStage_name BillStage.VETO_OVERRIDDEN = ''VETO_OVERRIDDEN''"
| "BillStage_name BillStage.ENACTED = ''ENACTED''"
| "BillStage_name BillStage.REJECTED = ''REJECTED''"

record Bill =
  title :: string
  sponsor :: string

record LegislativeProcess =
  bill :: Bill
  stage :: BillStage
  history :: "string list"

definition LegislativeProcess_new :: "Bill \<Rightarrow> LegislativeProcess" where
  "LegislativeProcess_new b = \<lparr>bill = b, stage = BillStage.INITIATED, history = []\<rparr>"

text \<open>\<open>_transition\<close>: append the entry to the history, then set the stage.\<close>

definition transition :: "LegislativeProcess \<Rightarrow> BillStage \<Rightarrow> string \<Rightarrow> LegislativeProcess" where
  "transition self new_stage note =
     self\<lparr>history := history self
              @ [BillStage_name (stage self) @ '' -> '' @ BillStage_name new_stage @ '': '' @ note],
          stage := new_stage\<rparr>"

text \<open>\<open>_require_stage\<close>.\<close>

definition require_stage :: "LegislativeProcess \<Rightarrow> BillStage list \<Rightarrow> string \<Rightarrow> error + unit" where
  "require_stage self expected art =
     (if stage self \<notin> set expected then
        (let expected_names = join '', '' (map BillStage_name expected) in
         Inl (LegislativeProcessError
           (''Cannot proceed: bill is at '' @ BillStage_name (stage self) @ '', ''
             @ ''expected '' @ expected_names)
           art))
      else Inr ())"

subsection \<open>Sejm\<close>

definition begin_sejm_deliberation :: "LegislativeProcess \<Rightarrow> LegislativeProcess outcome" where
  "begin_sejm_deliberation self =
     (case require_stage self [BillStage.INITIATED] ''119'' of
        Inl e \<Rightarrow> (Inl e, self)
      | Inr u \<Rightarrow> (Inr (), transition self BillStage.SEJM_DELIBERATION ''Three readings begin''))"

definition sejm_vote :: "VoteRecord \<Rightarrow> LegislativeProcess \<Rightarrow> LegislativeProcess outcome" where
  "sejm_vote vote self =
     (case require_stage self [BillStage.SEJM_DELIBERATION] ''120'' of
        Inl e \<Rightarrow> (Inl e, self)
      | Inr u \<Rightarrow>
          if chamber vote \<noteq> SEJM then (Inl AssertionError, self)
          else
            (case passes_vote vote SIMPLE True of
               Inl e \<Rightarrow>
                 (if is_QuorumError e \<or> is_MajorityError e
                  then (Inl e, transition self BillStage.REJECTED ''Sejm rejected'')
                  else (Inl e, self))
             | Inr b \<Rightarrow>
                 (Inr (), transition self BillStage.SEJM_PASSED
                    (''Passed '' @ str_int (votes_for vote) @ ''-''
                      @ str_int (votes_against vote)))))"

subsection \<open>Senate\<close>

definition send_to_senate :: "LegislativeProcess \<Rightarrow> LegislativeProcess outcome" where
  "send_to_senate self =
     (case require_stage self [BillStage.SEJM_PASSED] ''121(1)'' of
        Inl e \<Rightarrow> (Inl e, self)
      | Inr u \<Rightarrow> (Inr (), transition self BillStage.SENATE_DELIBERATION ''Sent to Senate''))"

definition senate_accepts :: "LegislativeProcess \<Rightarrow> LegislativeProcess outcome" where
  "senate_accepts self =
     (case require_stage self [BillStage.SENATE_DELIBERATION] ''121(2)'' of
        Inl e \<Rightarrow> (Inl e, self)
      | Inr u \<Rightarrow>
          (Inr (), transition self BillStage.SENATE_PASSED ''Senate accepted without changes''))"

text \<open>
  The two Senate votes call \<open>passes_vote\<close> outside any \<open>try\<close>: an exception leaves the
  method at once, before \<open>_transition\<close>.
\<close>

definition senate_amends :: "VoteRecord \<Rightarrow> LegislativeProcess \<Rightarrow> LegislativeProcess outcome" where
  "senate_amends vote self =
     (case require_stage self [BillStage.SENATE_DELIBERATION] ''121(2)'' of
        Inl e \<Rightarrow> (Inl e, self)
      | Inr u \<Rightarrow>
          if chamber vote \<noteq> SENATE then (Inl AssertionError, self)
          else
            (case passes_vote vote SIMPLE True of
               Inl e \<Rightarrow> (Inl e, self)
             | Inr b \<Rightarrow>
                 (Inr (), transition self BillStage.SENATE_AMENDED ''Senate proposed amendments'')))"

definition senate_rejects :: "VoteRecord \<Rightarrow> LegislativeProcess \<Rightarrow> LegislativeProcess outcome" where
  "senate_rejects vote self =
     (case require_stage self [BillStage.SENATE_DELIBERATION] ''121(2)'' of
        Inl e \<Rightarrow> (Inl e, self)
      | Inr u \<Rightarrow>
          if chamber vote \<noteq> SENATE then (Inl AssertionError, self)
          else
            (case passes_vote vote SIMPLE True of
               Inl e \<Rightarrow> (Inl e, self)
             | Inr b \<Rightarrow> (Inr (), transition self BillStage.SENATE_REJECTED ''Senate rejected'')))"

subsection \<open>Sejm override of Senate\<close>

definition sejm_override_senate :: "VoteRecord \<Rightarrow> LegislativeProcess \<Rightarrow> LegislativeProcess outcome" where
  "sejm_override_senate vote self =
     (case require_stage self [BillStage.SENATE_AMENDED, BillStage.SENATE_REJECTED] ''121(3)'' of
        Inl e \<Rightarrow> (Inl e, self)
      | Inr u \<Rightarrow>
          if chamber vote \<noteq> SEJM then (Inl AssertionError, self)
          else
            (case passes_vote vote ABSOLUTE True of
               Inl e \<Rightarrow>
                 (if is_QuorumError e \<or> is_MajorityError e
                  then (Inl e, transition self BillStage.REJECTED ''Sejm failed to override Senate'')
                  else (Inl e, self))
             | Inr b \<Rightarrow>
                 (Inr (), transition self BillStage.SEJM_OVERRIDE_VOTE ''Sejm overrode Senate'')))"

subsection \<open>President\<close>

definition send_to_president :: "LegislativeProcess \<Rightarrow> LegislativeProcess outcome" where
  "send_to_president self =
     (case require_stage self [BillStage.SENATE_PASSED, BillStage.SEJM_OVERRIDE_VOTE] ''122'' of
        Inl e \<Rightarrow> (Inl e, self)
      | Inr u \<Rightarrow> (Inr (), transition self BillStage.PRESIDENT_REVIEW ''Sent to President''))"

definition president_signs :: "LegislativeProcess \<Rightarrow> LegislativeProcess outcome" where
  "president_signs self =
     (case require_stage self [BillStage.PRESIDENT_REVIEW] ''122(2)'' of
        Inl e \<Rightarrow> (Inl e, self)
      | Inr u \<Rightarrow> (Inr (), transition self BillStage.SIGNED ''President signed''))"

definition president_vetoes :: "LegislativeProcess \<Rightarrow> LegislativeProcess outcome" where
  "president_vetoes self =
     (case require_stage self [BillStage.PRESIDENT_REVIEW] ''122(5)'' of
        Inl e \<Rightarrow> (Inl e, self)
      | Inr u \<Rightarrow> (Inr (), transition self BillStage.VETOED ''President vetoed''))"

definition president_refers_to_tribunal :: "LegislativeProcess \<Rightarrow> LegislativeProcess outcome" where
  "president_refers_to_tribunal self =
     (case require_stage self [BillStage.PRESIDENT_REVIEW] ''122(3)'' of
        Inl e \<Rightarrow> (Inl e, self)
      | Inr u \<Rightarrow> (Inr (), transition self BillStage.REFERRED_TO_TRIBUNAL ''Referred to Tribunal''))"

subsection \<open>Constitutional Tribunal verdict\<close>

definition tribunal_rules_constitutional :: "LegislativeProcess \<Rightarrow> LegislativeProcess outcome" where
  "tribunal_rules_constitutional self =
     (case require_stage self [BillStage.REFERRED_TO_TRIBUNAL] ''122(4)'' of
        Inl e \<Rightarrow> (Inl e, self)
      | Inr u \<Rightarrow>
          (Inr (), transition self BillStage.PRESIDENT_REVIEW
             (''Tribunal: constitutional '' @ em_dash @ '' returns to President'')))"

definition tribunal_rules_unconstitutional :: "LegislativeProcess \<Rightarrow> LegislativeProcess outcome" where
  "tribunal_rules_unconstitutional self =
     (case require_stage self [BillStage.REFERRED_TO_TRIBUNAL] ''122(4)'' of
        Inl e \<Rightarrow> (Inl e, self)
      | Inr u \<Rightarrow>
          (Inr (), transition self BillStage.REJECTED
             (''Tribunal: unconstitutional '' @ em_dash @ '' President refuses signature'')))"

definition tribunal_rules_partially_unconstitutional ::
  "LegislativeProcess \<Rightarrow> LegislativeProcess outcome" where
  "tribunal_rules_partially_unconstitutional self =
     (case require_stage self [BillStage.REFERRED_TO_TRIBUNAL] ''122(4)'' of
        Inl e \<Rightarrow> (Inl e, self)
      | Inr u \<Rightarrow>
          (Inr (), transition self BillStage.PARTIALLY_UNCONSTITUTIONAL
             (''Tribunal: partially unconstitutional '' @ em_dash @ '' President decides'')))"

definition president_signs_with_exclusions :: "LegislativeProcess \<Rightarrow> LegislativeProcess outcome" where
  "president_signs_with_exclusions self =
     (case require_stage self [BillStage.PARTIALLY_UNCONSTITUTIONAL] ''122(4)'' of
        Inl e \<Rightarrow> (Inl e, self)
      | Inr u \<Rightarrow>
          (Inr (), transition self BillStage.SIGNED
             ''President signed with exclusion of unconstitutional provisions''))"

definition president_returns_to_sejm :: "LegislativeProcess \<Rightarrow> LegislativeProcess outcome" where
  "president_returns_to_sejm self =
     (case require_stage self [BillStage.PARTIALLY_UNCONSTITUTIONAL] ''122(4)'' of
        Inl e \<Rightarrow> (Inl e, self)
      | Inr u \<Rightarrow>
          (Inr (), transition self BillStage.SEJM_DELIBERATION
             ''Returned to Sejm for removal of unconstitutionality''))"

subsection \<open>Veto override\<close>

definition sejm_override_veto :: "VoteRecord \<Rightarrow> LegislativeProcess \<Rightarrow> LegislativeProcess outcome" where
  "sejm_override_veto vote self =
     (case require_stage self [BillStage.VETOED] ''122(5)'' of
        Inl e \<Rightarrow> (Inl e, self)
      | Inr u \<Rightarrow>
          if chamber vote \<noteq> SEJM then (Inl AssertionError, self)
          else
            (case passes_vote vote THREE_FIFTHS True of
               Inl e \<Rightarrow>
                 (if is_QuorumError e \<or> is_MajorityError e
                  then (Inl e, transition self BillStage.REJECTED ''Veto override failed'')
                  else (Inl e, self))
             | Inr b \<Rightarrow>
                 (Inr (), transition self BillStage.VETO_OVERRIDDEN ''Veto overridden by 3/5 Sejm'')))"

subsection \<open>Enactment\<close>

definition enact :: "LegislativeProcess \<Rightarrow> LegislativeProcess outcome" where
  "enact self =
     (case require_stage self [BillStage.SIGNED, BillStage.VETO_OVERRIDDEN] ''122'' of
        Inl e \<Rightarrow> (Inl e, self)
      | Inr u \<Rightarrow> (Inr (), transition self BillStage.ENACTED ''Published in Dziennik Ustaw''))"

subsection \<open>Calls and scripts\<close>

datatype LegislativeProcess_call =
    Begin_sejm_deliberation
  | Sejm_vote VoteRecord
  | Send_to_senate
  | Senate_accepts
  | Senate_amends VoteRecord
  | Senate_rejects VoteRecord
  | Sejm_override_senate VoteRecord
  | Send_to_president
  | President_signs
  | President_vetoes
  | President_refers_to_tribunal
  | Tribunal_rules_constitutional
  | Tribunal_rules_unconstitutional
  | Tribunal_rules_partially_unconstitutional
  | President_signs_with_exclusions
  | President_returns_to_sejm
  | Sejm_override_veto VoteRecord
  | Enact

fun call :: "LegislativeProcess_call \<Rightarrow> LegislativeProcess \<Rightarrow> LegislativeProcess outcome" where
  "call Begin_sejm_deliberation = begin_sejm_deliberation"
| "call (Sejm_vote vote) = sejm_vote vote"
| "call Send_to_senate = send_to_senate"
| "call Senate_accepts = senate_accepts"
| "call (Senate_amends vote) = senate_amends vote"
| "call (Senate_rejects vote) = senate_rejects vote"
| "call (Sejm_override_senate vote) = sejm_override_senate vote"
| "call Send_to_president = send_to_president"
| "call President_signs = president_signs"
| "call President_vetoes = president_vetoes"
| "call President_refers_to_tribunal = president_refers_to_tribunal"
| "call Tribunal_rules_constitutional = tribunal_rules_constitutional"
| "call Tribunal_rules_unconstitutional = tribunal_rules_unconstitutional"
| "call Tribunal_rules_partially_unconstitutional = tribunal_rules_partially_unconstitutional"
| "call President_signs_with_exclusions = president_signs_with_exclusions"
| "call President_returns_to_sejm = president_returns_to_sejm"
| "call (Sejm_override_veto vote) = sejm_override_veto vote"
| "call Enact = enact"

fun run :: "LegislativeProcess_call list \<Rightarrow> LegislativeProcess \<Rightarrow> LegislativeProcess outcome" where
  "run [] self = (Inr (), self)"
| "run (c # cs) self =
     (case call c self of
        (Inl e, self') \<Rightarrow> (Inl e, self')
      | (Inr u, self') \<Rightarrow> run cs self')"

text \<open>The stages each method passes to \<open>_require_stage\<close>.\<close>

fun source_stages :: "LegislativeProcess_call \<Rightarrow> BillStage list" where
  "source_stages Begin_sejm_deliberation = [BillStage.INITIATED]"
| "source_stages (Sejm_vote vote) = [BillStage.SEJM_DELIBERATION]"
| "source_stages Send_to_senate = [BillStage.SEJM_PASSED]"
| "source_stages Senate_accepts = [BillStage.SENATE_DELIBERATION]"
| "source_stages (Senate_amends vote) = [BillStage.SENATE_DELIBERATION]"
| "source_stages (Senate_rejects vote) = [BillStage.SENATE_DELIBERATION]"
| "source_stages (Sejm_override_senate vote) = [BillStage.SENATE_AMENDED, BillStage.SENATE_REJECTED]"
| "source_stages Send_to_president = [BillStage.SENATE_PASSED, BillStage.SEJM_OVERRIDE_VOTE]"
| "source_stages President_signs = [BillStage.PRESIDENT_REVIEW]"
| "source_stages President_vetoes = [BillStage.PRESIDENT_REVIEW]"
| "source_stages President_refers_to_tribunal = [BillStage.PRESIDENT_REVIEW]"
| "source_stages Tribunal_rules_constitutional = [BillStage.REFERRED_TO_TRIBUNAL]"
| "source_stages Tribunal_rules_unconstitutional = [BillStage.REFERRED_TO_TRIBUNAL]"
| "source_stages Tribunal_rules_partially_unconstitutional = [BillStage.REFERRED_TO_TRIBUNAL]"
| "source_stages President_signs_with_exclusions = [BillStage.PARTIALLY_UNCONSTITUTIONAL]"
| "source_stages President_returns_to_sejm = [BillStage.PARTIALLY_UNCONSTITUTIONAL]"
| "source_stages (Sejm_override_veto vote) = [BillStage.VETOED]"
| "source_stages Enact = [BillStage.SIGNED, BillStage.VETO_OVERRIDDEN]"

section \<open>The legislative process with its history as a list object\<close>


































section \<open>Fixtures of the test suite (tests/)\<close>

definition process :: LegislativeProcess where
  "process = LegislativeProcess_new \<lparr>title = ''Ustawa o podatku VAT'', sponsor = ''Council of Ministers''\<rparr>"

definition sejm_pass_vote :: VoteRecord where
  "sejm_pass_vote = VoteRecord_new SEJM 250 180 10"

definition sejm_fail_vote :: VoteRecord where
  "sejm_fail_vote = VoteRecord_new SEJM 150 200 80"

definition senate_pass_vote :: VoteRecord where
  "senate_pass_vote = VoteRecord_new SENATE 55 40 5"

definition sejm_absolute_vote :: VoteRecord where
  "sejm_absolute_vote = VoteRecord_new SEJM 231 100 50"

definition sejm_2_3_vote :: VoteRecord where
  "sejm_2_3_vote = VoteRecord_new SEJM 310 80 10"

definition senate_absolute_vote :: VoteRecord where
  "senate_absolute_vote = VoteRecord_new SENATE 51 30 10"

text \<open>
  The two amendments of the tests, as the constructor returns them: one to Chapter IV,
  initiated by the Senate, and one to Chapter I, initiated by the President.
\<close>

definition standard_amendment :: AmendmentProcess where
  "standard_amendment =
     \<lparr>AmendmentProcess.title = ''Zmiana art. 100'', initiator = ''Senate'',
      affected_chapters = {4}, AmendmentProcess.stage = AmendmentStage.INITIATED,
      referendum_requested = False\<rparr>"

definition protected_amendment :: AmendmentProcess where
  "protected_amendment =
     \<lparr>AmendmentProcess.title = ''Zmiana art. 1'', initiator = ''President'',
      affected_chapters = {1}, AmendmentProcess.stage = AmendmentStage.INITIATED,
      referendum_requested = False\<rparr>"

section \<open>Properties of the voting engine\<close>

lemma check_majority_cases:
  "check_majority vote k =
     (if majority_inequality vote k then Inr True
      else Inl (MajorityError (message (projl (check_majority vote k)))
                              (article (projl (check_majority vote k)))))"
  by (cases k) (simp_all add: Let_def)

text \<open>
  C2: \<open>check_quorum\<close> returns normally exactly when twice the number present reaches the
  statutory member count, and raises \<open>QuorumError\<close> exactly when it does not; equality
  passes.
\<close>

theorem check_quorum_iff:
  "returns (check_quorum vote) = (total_present vote * 2 \<ge> members vote)
   \<and> raises is_QuorumError (check_quorum vote) = (total_present vote * 2 < members vote)"
  by (simp add: check_quorum_def returns_def raises_def)

text \<open>In the 460-member Sejm, 230 present meet the quorum and 229 do not.\<close>

theorem check_quorum_iff_witness:
  "returns (check_quorum (VoteRecord_new SEJM 200 30 0))
   \<and> raises is_QuorumError (check_quorum (VoteRecord_new SEJM 200 29 0))"
  using check_quorum_iff [of "VoteRecord_new SEJM 200 30 0"]
        check_quorum_iff [of "VoteRecord_new SEJM 200 29 0"]
  by (simp add: VoteRecord_new_def statutory_members_def total_present_def)

text \<open>
  C1: for each of the four majority kinds, \<open>check_majority\<close> returns (the value True)
  exactly when the kind's integer inequality holds, and raises \<open>MajorityError\<close> exactly
  when it does not. Abstentions do not enter the SIMPLE comparison; exact two-thirds and
  exact three-fifths pass.
\<close>

theorem check_majority_iff:
  "returns (check_majority vote SIMPLE) = (votes_for vote > votes_against vote)
   \<and> returns (check_majority vote ABSOLUTE) = (votes_for vote * 2 > members vote)
   \<and> returns (check_majority vote TWO_THIRDS) = (votes_for vote * 3 \<ge> total_present vote * 2)
   \<and> returns (check_majority vote THREE_FIFTHS) = (votes_for vote * 5 \<ge> total_present vote * 3)
   \<and> returns (check_majority vote k) = majority_inequality vote k
   \<and> raises is_MajorityError (check_majority vote k) = (\<not> majority_inequality vote k)"
proof -
  have "returns (check_majority vote j) = majority_inequality vote j
        \<and> raises is_MajorityError (check_majority vote j) = (\<not> majority_inequality vote j)" for j
    by (subst (1 2) check_majority_cases) (simp add: returns_def raises_def)
  from this [of SIMPLE] this [of ABSOLUTE] this [of TWO_THIRDS] this [of THREE_FIFTHS] this [of k]
  show ?thesis by simp
qed

text \<open>
  100 for, 99 against and 231 abstaining pass SIMPLE; 200 of 300 present pass TWO_THIRDS;
  276 of 460 present pass THREE_FIFTHS and 275 do not; 230 of the 460 statutory members
  fail ABSOLUTE.
\<close>

theorem check_majority_iff_witness:
  "returns (check_majority (VoteRecord_new SEJM 100 99 231) SIMPLE)
   \<and> returns (check_majority (VoteRecord_new SEJM 200 100 0) TWO_THIRDS)
   \<and> returns (check_majority (VoteRecord_new SEJM 276 184 0) THREE_FIFTHS)
   \<and> raises is_MajorityError (check_majority (VoteRecord_new SEJM 275 185 0) THREE_FIFTHS)
   \<and> raises is_MajorityError (check_majority (VoteRecord_new SEJM 230 100 50) ABSOLUTE)"
  using check_majority_iff [of "VoteRecord_new SEJM 100 99 231" SIMPLE]
        check_majority_iff [of "VoteRecord_new SEJM 200 100 0" TWO_THIRDS]
        check_majority_iff [of "VoteRecord_new SEJM 276 184 0" THREE_FIFTHS]
        check_majority_iff [of "VoteRecord_new SEJM 275 185 0" THREE_FIFTHS]
        check_majority_iff [of "VoteRecord_new SEJM 230 100 50" ABSOLUTE]
  by (simp add: VoteRecord_new_def statutory_members_def total_present_def)

text \<open>
  C7: \<open>passes_vote\<close> checks the quorum first when it is required and the majority second.
  When the quorum check raises, \<open>passes_vote\<close> raises that very \<open>QuorumError\<close>, whatever
  the majority kind and whether or not the majority would be reached; when the quorum is
  met, or is not required, the outcome is that of \<open>check_majority\<close> alone.
\<close>

theorem passes_vote_order:
  "(check_quorum vote = Inl e \<longrightarrow> passes_vote vote k True = Inl e)
   \<and> (total_present vote * 2 < members vote \<longrightarrow>
        raises is_QuorumError (passes_vote vote k True))
   \<and> (total_present vote * 2 \<ge> members vote \<longrightarrow>
        passes_vote vote k True = check_majority vote k)
   \<and> passes_vote vote k False = check_majority vote k"
  by (simp add: passes_vote_def check_quorum_def raises_def)

text \<open>
  With 155 of 460 present and more votes against than for, both checks would fail: the
  error raised is the quorum error. Without the quorum requirement, 10 for and 5 against
  pass.
\<close>

theorem passes_vote_order_witness:
  "\<not> majority_inequality (VoteRecord_new SEJM 50 100 5) SIMPLE
   \<and> passes_vote (VoteRecord_new SEJM 50 100 5) SIMPLE True =
       Inl (QuorumError
         ''Quorum not met: 155 present, need at least 230 of 460 statutory members'' ''120'')
   \<and> raises is_QuorumError (passes_vote (VoteRecord_new SEJM 50 100 5) SIMPLE True)
   \<and> passes_vote (VoteRecord_new SEJM 250 180 10) SIMPLE True =
       check_majority (VoteRecord_new SEJM 250 180 10) SIMPLE
   \<and> passes_vote (VoteRecord_new SEJM 10 5 0) SIMPLE False =
       check_majority (VoteRecord_new SEJM 10 5 0) SIMPLE"
proof -
  have q: "check_quorum (VoteRecord_new SEJM 50 100 5) =
      Inl (QuorumError
        ''Quorum not met: 155 present, need at least 230 of 460 statutory members'' ''120'')"
    by (simp add: check_quorum_def VoteRecord_new_def statutory_members_def total_present_def
        str_int_def digits10.simps)
  have t: "total_present (VoteRecord_new SEJM 50 100 5) * 2 < members (VoteRecord_new SEJM 50 100 5)"
    by (simp add: VoteRecord_new_def statutory_members_def total_present_def)
  have u: "total_present (VoteRecord_new SEJM 250 180 10) * 2 \<ge> members (VoteRecord_new SEJM 250 180 10)"
    by (simp add: VoteRecord_new_def statutory_members_def total_present_def)
  have m: "\<not> majority_inequality (VoteRecord_new SEJM 50 100 5) SIMPLE"
    by (simp add: VoteRecord_new_def)
  show ?thesis
    using q t u m passes_vote_order [of "VoteRecord_new SEJM 50 100 5" _ SIMPLE]
      passes_vote_order [of "VoteRecord_new SEJM 250 180 10" _ SIMPLE]
      passes_vote_order [of "VoteRecord_new SEJM 10 5 0" _ SIMPLE]
    by blast
qed

text \<open>
  C10: neither \<open>check_majority\<close> nor \<open>passes_vote\<close> ever returns False: a normal return
  is the value True, so the result says no more than that no error was raised.
\<close>

theorem never_returns_False:
  "check_majority vote k \<noteq> Inr False
   \<and> passes_vote vote k require_quorum \<noteq> Inr False
   \<and> returns (check_majority vote k) = (check_majority vote k = Inr True)
   \<and> returns (passes_vote vote k require_quorum) = (passes_vote vote k require_quorum = Inr True)"
proof -
  have m: "check_majority vote k \<noteq> Inr False"
    by (subst check_majority_cases) simp
  have p: "passes_vote vote k require_quorum \<noteq> Inr False"
    using m by (simp add: passes_vote_def split: sum.split)
  have r: "returns r = (r = Inr True)" if "r \<noteq> Inr False" for r :: "error + bool"
    using that by (cases r) (auto simp: returns_def)
  show ?thesis using m p r [OF m] r [OF p] by simp
qed

theorem never_returns_False_witness:
  "check_majority (VoteRecord_new SEJM 250 180 10) SIMPLE = Inr True
   \<and> passes_vote (VoteRecord_new SEJM 250 180 10) SIMPLE True = Inr True"
proof -
  have "returns (check_majority (VoteRecord_new SEJM 250 180 10) SIMPLE)"
    by (simp add: returns_def VoteRecord_new_def)
  moreover have "returns (passes_vote (VoteRecord_new SEJM 250 180 10) SIMPLE True)"
    by (simp add: returns_def VoteRecord_new_def passes_vote_def check_quorum_def
        total_present_def statutory_members_def)
  ultimately show ?thesis
    using never_returns_False [of "VoteRecord_new SEJM 250 180 10" SIMPLE True] by blast
qed

section \<open>Properties of the legislative process\<close>

lemmas method_defs =
  begin_sejm_deliberation_def sejm_vote_def send_to_senate_def senate_accepts_def
  senate_amends_def senate_rejects_def sejm_override_senate_def send_to_president_def
  president_signs_def president_vetoes_def president_refers_to_tribunal_def
  tribunal_rules_constitutional_def tribunal_rules_unconstitutional_def
  tribunal_rules_partially_unconstitutional_def president_signs_with_exclusions_def
  president_returns_to_sejm_def sejm_override_veto_def enact_def

lemmas vote_eval =
  passes_vote_def check_quorum_def total_present_def VoteRecord_new_def statutory_members_def
  str_int_def digits10.simps Let_def

lemmas process_eval =
  method_defs require_stage_def transition_def LegislativeProcess_new_def process_def vote_eval

lemma sublist_mid: "sublist zs ys \<Longrightarrow> sublist zs (ps @ ys @ ss)"
  by (auto simp: sublist_def) (metis append.assoc)

lemma sublist_join: "x \<in> set xs \<Longrightarrow> sublist x (join sep xs)"
proof (induction sep xs rule: join.induct)
  case (1 sep)
  then show ?case by simp
next
  case (2 sep y)
  then show ?case by simp
next
  case (3 sep y z zs)
  show ?case
  proof (cases "x = y")
    case True
    then show ?thesis by simp
  next
    case False
    with 3 have "sublist x (join sep (z # zs))" by simp
    then have "sublist x ((y @ sep) @ join sep (z # zs) @ [])"
      by (rule sublist_mid)
    then show ?thesis by simp
  qed
qed

lemma sublist_names:
  "s = a \<or> s \<in> set xs \<Longrightarrow> sublist (f s) (pre @ f a @ mid @ join sep (map f xs) @ post)"
proof (erule disjE)
  assume "s = a"
  then show ?thesis by simp
next
  assume "s \<in> set xs"
  then have "sublist (f s) (join sep (map f xs))"
    by (intro sublist_join) simp
  then have "sublist (f s) ((pre @ f a @ mid) @ join sep (map f xs) @ post)"
    by (rule sublist_mid)
  then show ?thesis by simp
qed

lemma passes_vote_error_class:
  "passes_vote vote k q = Inl e \<Longrightarrow> is_QuorumError e \<or> is_MajorityError e"
proof -
  assume a: "passes_vote vote k q = Inl e"
  have m: "check_majority vote k = Inl e \<Longrightarrow> is_MajorityError e"
    by (subst (asm) check_majority_cases) (auto split: if_splits)
  from a show ?thesis
    by (auto simp: passes_vote_def check_quorum_def dest: m split: if_splits)
qed

lemma require_stage_refuses:
  "stage p \<notin> set expected \<Longrightarrow>
     require_stage p expected art =
       Inl (LegislativeProcessError
         (''Cannot proceed: bill is at '' @ BillStage_name (stage p) @ '', expected ''
           @ join '', '' (map BillStage_name expected)) art)"
  by (simp add: require_stage_def)

lemma require_stage_admits:
  "stage p \<in> set expected \<Longrightarrow> require_stage p expected art = Inr ()"
  by (simp add: require_stage_def)

lemma call_refuses:
  "stage p \<notin> set (source_stages c) \<Longrightarrow>
     \<exists>art. call c p =
       (Inl (LegislativeProcessError
          (''Cannot proceed: bill is at '' @ BillStage_name (stage p) @ '', expected ''
            @ join '', '' (map BillStage_name (source_stages c))) art), p)"
  by (cases c)
    (simp_all add: method_defs require_stage_refuses del: join.simps BillStage_name.simps)

text \<open>
  C9: from a new process, the seven calls of the happy path with a Sejm vote that passes
  (quorum and simple majority) all return, end at ENACTED, and leave exactly seven history
  entries, one per call.
\<close>

theorem happy_path_enacted:
  assumes "chamber vote = SEJM" and "returns (passes_vote vote SIMPLE True)"
  shows "run [Begin_sejm_deliberation, Sejm_vote vote, Send_to_senate, Senate_accepts,
              Send_to_president, President_signs, Enact] (LegislativeProcess_new b) =
           (Inr (),
            \<lparr>bill = b, stage = BillStage.ENACTED,
             history =
               [''INITIATED -> SEJM_DELIBERATION: Three readings begin'',
                ''SEJM_DELIBERATION -> SEJM_PASSED: Passed '' @ str_int (votes_for vote) @ ''-''
                   @ str_int (votes_against vote),
                ''SEJM_PASSED -> SENATE_DELIBERATION: Sent to Senate'',
                ''SENATE_DELIBERATION -> SENATE_PASSED: Senate accepted without changes'',
                ''SENATE_PASSED -> PRESIDENT_REVIEW: Sent to President'',
                ''PRESIDENT_REVIEW -> SIGNED: President signed'',
                ''SIGNED -> ENACTED: Published in Dziennik Ustaw'']\<rparr>)
         \<and> length (history (snd (run [Begin_sejm_deliberation, Sejm_vote vote, Send_to_senate,
              Senate_accepts, Send_to_president, President_signs, Enact]
              (LegislativeProcess_new b)))) = 7"
proof -
  from assms(2) obtain x where "passes_vote vote SIMPLE True = Inr x"
    by (cases "passes_vote vote SIMPLE True") (simp_all add: returns_def)
  with assms(1) show ?thesis
    by (simp add: method_defs require_stage_def transition_def LegislativeProcess_new_def)
qed

text \<open>The vote of the example: 250 for and 180 against in the Sejm.\<close>

theorem happy_path_enacted_witness:
  "stage (snd (run [Begin_sejm_deliberation, Sejm_vote (VoteRecord_new SEJM 250 180 0),
       Send_to_senate, Senate_accepts, Send_to_president, President_signs, Enact] process))
     = BillStage.ENACTED
   \<and> fst (run [Begin_sejm_deliberation, Sejm_vote (VoteRecord_new SEJM 250 180 0),
       Send_to_senate, Senate_accepts, Send_to_president, President_signs, Enact] process)
     = Inr ()
   \<and> length (history (snd (run [Begin_sejm_deliberation,
       Sejm_vote (VoteRecord_new SEJM 250 180 0), Send_to_senate, Senate_accepts,
       Send_to_president, President_signs, Enact] process))) = 7"
proof -
  have c: "chamber (VoteRecord_new SEJM 250 180 0) = SEJM"
    by (simp add: VoteRecord_new_def)
  have v: "returns (passes_vote (VoteRecord_new SEJM 250 180 0) SIMPLE True)"
    by (simp add: returns_def vote_eval)
  show ?thesis
    unfolding process_def
    using happy_path_enacted [OF c v, of "\<lparr>title = ''Ustawa o podatku VAT'', sponsor = ''Council of Ministers''\<rparr>"]
    by (simp del: run.simps)
qed

section \<open>Calls outside the permitted stages\<close>

lemma call_gf_refuses:
  "GovernmentFormation.stage g \<notin> set (source_stages_gf d) \<Longrightarrow>
     \<exists>art. call_gf d g =
       (Inl (GovernmentFormationError
          (''Cannot proceed: formation is at ''
            @ GovernmentFormationStage_name (GovernmentFormation.stage g) @ '', expected ''
            @ join '', '' (map GovernmentFormationStage_name (source_stages_gf d)) @ ''.'')
          art), g)"
  by (cases d)
    (simp_all add: president_designates_def sejm_confidence_first_attempt_def
      sejm_elects_pm_def president_appoints_third_attempt_def require_stage_gf_def)

lemma call_amendment_refuses:
  "AmendmentProcess.stage a \<notin> set (source_stages_amendment f) \<Longrightarrow>
     \<exists>art. call_amendment f a =
       (Inl (AmendmentError
          (refusal_amendment f @ AmendmentStage_name (AmendmentProcess.stage a)) art), a)"
  by (cases f)
    (simp_all add: first_reading_def sejm_vote_amendment_def senate_vote_def
      request_referendum_def referendum_result_def president_sign_def complete_def
      del: AmendmentStage_name.simps)

text \<open>
  C6, as amended: in each of the three machines a method called while the stage is not
  one of the stages the method admits raises the machine's process error and leaves the
  instance as it was. In the legislative and the government-formation machine the message
  names the actual stage and every expected stage; in the amendment machine the message
  names the actual stage after the method's own words.
\<close>

theorem illegal_transition_refused:
  "(stage p \<notin> set (source_stages c) \<longrightarrow>
      (\<exists>art. call c p =
         (Inl (LegislativeProcessError
            (''Cannot proceed: bill is at '' @ BillStage_name (stage p) @ '', expected ''
              @ join '', '' (map BillStage_name (source_stages c))) art), p)))
   \<and> (\<forall>s \<in> set (stage p # source_stages c).
        sublist (BillStage_name s)
          (''Cannot proceed: bill is at '' @ BillStage_name (stage p) @ '', expected ''
            @ join '', '' (map BillStage_name (source_stages c))))
   \<and> (GovernmentFormation.stage g \<notin> set (source_stages_gf d) \<longrightarrow>
      (\<exists>art. call_gf d g =
         (Inl (GovernmentFormationError
            (''Cannot proceed: formation is at ''
              @ GovernmentFormationStage_name (GovernmentFormation.stage g) @ '', expected ''
              @ join '', '' (map GovernmentFormationStage_name (source_stages_gf d)) @ ''.'')
            art), g)))
   \<and> (\<forall>s \<in> set (GovernmentFormation.stage g # source_stages_gf d).
        sublist (GovernmentFormationStage_name s)
          (''Cannot proceed: formation is at ''
            @ GovernmentFormationStage_name (GovernmentFormation.stage g) @ '', expected ''
            @ join '', '' (map GovernmentFormationStage_name (source_stages_gf d)) @ ''.''))
   \<and> (AmendmentProcess.stage a \<notin> set (source_stages_amendment f) \<longrightarrow>
      (\<exists>art. call_amendment f a =
         (Inl (AmendmentError
            (refusal_amendment f @ AmendmentStage_name (AmendmentProcess.stage a)) art), a)))"
proof -
  have l: "\<forall>s \<in> set (stage p # source_stages c).
        sublist (BillStage_name s)
          (''Cannot proceed: bill is at '' @ BillStage_name (stage p) @ '', expected ''
            @ join '', '' (map BillStage_name (source_stages c)))"
  proof
    fix s assume "s \<in> set (stage p # source_stages c)"
    then have "s = stage p \<or> s \<in> set (source_stages c)" by simp
    from sublist_names [OF this, of BillStage_name "''Cannot proceed: bill is at ''"
        "'', expected ''" "'', ''" "[]"]
    show "sublist (BillStage_name s)
          (''Cannot proceed: bill is at '' @ BillStage_name (stage p) @ '', expected ''
            @ join '', '' (map BillStage_name (source_stages c)))"
      by simp
  qed
  have r: "\<forall>s \<in> set (GovernmentFormation.stage g # source_stages_gf d).
        sublist (GovernmentFormationStage_name s)
          (''Cannot proceed: formation is at ''
            @ GovernmentFormationStage_name (GovernmentFormation.stage g) @ '', expected ''
            @ join '', '' (map GovernmentFormationStage_name (source_stages_gf d)) @ ''.'')"
  proof
    fix s assume "s \<in> set (GovernmentFormation.stage g # source_stages_gf d)"
    then have "s = GovernmentFormation.stage g \<or> s \<in> set (source_stages_gf d)" by simp
    from sublist_names [OF this, of GovernmentFormationStage_name
        "''Cannot proceed: formation is at ''" "'', expected ''" "'', ''" "''.''"]
    show "sublist (GovernmentFormationStage_name s)
          (''Cannot proceed: formation is at ''
            @ GovernmentFormationStage_name (GovernmentFormation.stage g) @ '', expected ''
            @ join '', '' (map GovernmentFormationStage_name (source_stages_gf d)) @ ''.'')"
      by simp
  qed
  from l r call_refuses [of p c] call_gf_refuses [of g d] call_amendment_refuses [of a f]
  show ?thesis by blast
qed

text \<open>
  \<open>president_signs\<close> on a new bill, and on a bill the Senate has accepted but that was
  not sent to the President, is refused and changes nothing; so are a confidence vote on a
  new formation and \<open>complete\<close> on a new amendment.
\<close>

theorem illegal_transition_refused_witness:
  "(\<exists>art. call President_signs process =
      (Inl (LegislativeProcessError
         ''Cannot proceed: bill is at INITIATED, expected PRESIDENT_REVIEW'' art), process))
   \<and> (\<exists>art. call President_signs
        (snd (run [Begin_sejm_deliberation, Sejm_vote sejm_pass_vote, Send_to_senate,
                   Senate_accepts] process)) =
      (Inl (LegislativeProcessError
         ''Cannot proceed: bill is at SENATE_PASSED, expected PRESIDENT_REVIEW'' art),
       snd (run [Begin_sejm_deliberation, Sejm_vote sejm_pass_vote, Send_to_senate,
                 Senate_accepts] process)))
   \<and> (\<exists>art. call_gf (Sejm_confidence_first_attempt sejm_absolute_vote) GovernmentFormation_new =
      (Inl (GovernmentFormationError
         ''Cannot proceed: formation is at PRESIDENT_DESIGNATES, expected CONFIDENCE_VOTE.''
         art), GovernmentFormation_new))
   \<and> (\<exists>art. call_amendment Complete standard_amendment =
      (Inl (AmendmentError ''Cannot complete from stage INITIATED'' art), standard_amendment))
   \<and> sublist ''INITIATED'' ''Cannot proceed: bill is at INITIATED, expected PRESIDENT_REVIEW''
   \<and> sublist ''PRESIDENT_REVIEW''
        ''Cannot proceed: bill is at INITIATED, expected PRESIDENT_REVIEW''
   \<and> sublist ''CONFIDENCE_VOTE''
        ''Cannot proceed: formation is at PRESIDENT_DESIGNATES, expected CONFIDENCE_VOTE.''"
proof -
  let ?q = "snd (run [Begin_sejm_deliberation, Sejm_vote sejm_pass_vote, Send_to_senate,
                      Senate_accepts] process)"
  have s1: "stage process = BillStage.INITIATED"
    by (simp add: process_def LegislativeProcess_new_def)
  have s2: "stage ?q = BillStage.SENATE_PASSED"
    by (simp add: process_eval sejm_pass_vote_def)
  have s3: "GovernmentFormation.stage GovernmentFormation_new = PRESIDENT_DESIGNATES"
    by (simp add: GovernmentFormation_new_def)
  have s4: "AmendmentProcess.stage standard_amendment = AmendmentStage.INITIATED"
    by (simp add: standard_amendment_def)
  have "\<exists>art. call President_signs process =
      (Inl (LegislativeProcessError
         ''Cannot proceed: bill is at INITIATED, expected PRESIDENT_REVIEW'' art), process)"
    using illegal_transition_refused [of process President_signs] s1 by simp
  moreover have "\<exists>art. call President_signs ?q =
      (Inl (LegislativeProcessError
         ''Cannot proceed: bill is at SENATE_PASSED, expected PRESIDENT_REVIEW'' art), ?q)"
    using illegal_transition_refused [of ?q President_signs] s2 by (simp del: run.simps)
  moreover have "\<exists>art. call_gf (Sejm_confidence_first_attempt sejm_absolute_vote)
        GovernmentFormation_new =
      (Inl (GovernmentFormationError
         ''Cannot proceed: formation is at PRESIDENT_DESIGNATES, expected CONFIDENCE_VOTE.''
         art), GovernmentFormation_new)"
    using illegal_transition_refused [of _ _ GovernmentFormation_new
        "Sejm_confidence_first_attempt sejm_absolute_vote"] s3 by simp
  moreover have "\<exists>art. call_amendment Complete standard_amendment =
      (Inl (AmendmentError ''Cannot complete from stage INITIATED'' art), standard_amendment)"
    using illegal_transition_refused [of _ _ _ _ standard_amendment Complete] s4 by simp
  moreover have "sublist ''INITIATED''
        ''Cannot proceed: bill is at INITIATED, expected PRESIDENT_REVIEW''
      \<and> sublist ''PRESIDENT_REVIEW''
        ''Cannot proceed: bill is at INITIATED, expected PRESIDENT_REVIEW''"
  proof -
    have "\<forall>s \<in> set (stage process # source_stages President_signs).
        sublist (BillStage_name s)
          (''Cannot proceed: bill is at '' @ BillStage_name (stage process) @ '', expected ''
            @ join '', '' (map BillStage_name (source_stages President_signs)))"
      using illegal_transition_refused [of process President_signs] by blast
    then show ?thesis using s1 by simp
  qed
  moreover have "sublist ''CONFIDENCE_VOTE''
        ''Cannot proceed: formation is at PRESIDENT_DESIGNATES, expected CONFIDENCE_VOTE.''"
  proof -
    have "\<forall>s \<in> set (GovernmentFormation.stage GovernmentFormation_new
              # source_stages_gf (Sejm_confidence_first_attempt sejm_absolute_vote)).
        sublist (GovernmentFormationStage_name s)
          (''Cannot proceed: formation is at ''
            @ GovernmentFormationStage_name (GovernmentFormation.stage GovernmentFormation_new)
            @ '', expected ''
            @ join '', '' (map GovernmentFormationStage_name
                (source_stages_gf (Sejm_confidence_first_attempt sejm_absolute_vote))) @ ''.'')"
      using illegal_transition_refused [of _ _ GovernmentFormation_new
          "Sejm_confidence_first_attempt sejm_absolute_vote"] by blast
    then show ?thesis using s3 by simp
  qed
  ultimately show ?thesis by blast
qed

text \<open>
  The claim as stated fails in the amendment machine: \<open>complete\<close> admits the stage
  PRESIDENT_SIGNS only, and its error on a new amendment does not name that stage.
\<close>

theorem amendment_refusal_counterexample:
  "call_amendment Complete standard_amendment =
     (Inl (AmendmentError ''Cannot complete from stage INITIATED'' ''235''), standard_amendment)
   \<and> source_stages_amendment Complete = [AmendmentStage.PRESIDENT_SIGNS]
   \<and> \<not> sublist (AmendmentStage_name AmendmentStage.PRESIDENT_SIGNS)
         ''Cannot complete from stage INITIATED''"
proof -
  have "\<not> sublist ''PRESIDENT_SIGNS'' ''Cannot complete from stage INITIATED''"
    by code_simp
  then show ?thesis
    by (simp add: complete_def standard_amendment_def)
qed

section \<open>Failed votes in the legislative process\<close>

text \<open>
  C3, as amended: the three Sejm votes (the first vote, the override of the Senate and the
  override of the veto), called in a permitted stage with a vote record of the Sejm whose
  check fails, move the bill to REJECTED through \<open>_transition\<close> and re-raise the error of
  \<open>passes_vote\<close>, which is a \<open>QuorumError\<close> or a \<open>MajorityError\<close>. The two Senate votes
  (amendments, rejection), called in SENATE_DELIBERATION with a vote record of the Senate
  whose check fails, raise that error and leave the bill as it was.
\<close>

theorem vote_failure_outcome:
  "(stage p = BillStage.SEJM_DELIBERATION \<and> chamber vote = SEJM
      \<and> passes_vote vote SIMPLE True = Inl e \<longrightarrow>
        sejm_vote vote p = (Inl e, transition p BillStage.REJECTED ''Sejm rejected''))
   \<and> (stage p \<in> {BillStage.SENATE_AMENDED, BillStage.SENATE_REJECTED} \<and> chamber vote = SEJM
      \<and> passes_vote vote ABSOLUTE True = Inl e \<longrightarrow>
        sejm_override_senate vote p =
          (Inl e, transition p BillStage.REJECTED ''Sejm failed to override Senate''))
   \<and> (stage p = BillStage.VETOED \<and> chamber vote = SEJM
      \<and> passes_vote vote THREE_FIFTHS True = Inl e \<longrightarrow>
        sejm_override_veto vote p =
          (Inl e, transition p BillStage.REJECTED ''Veto override failed''))
   \<and> (stage p = BillStage.SENATE_DELIBERATION \<and> chamber vote = SENATE
      \<and> passes_vote vote SIMPLE True = Inl e \<longrightarrow>
        senate_amends vote p = (Inl e, p) \<and> senate_rejects vote p = (Inl e, p))
   \<and> stage (transition p BillStage.REJECTED note) = BillStage.REJECTED
   \<and> (passes_vote vote k True = Inl e \<longrightarrow> is_QuorumError e \<or> is_MajorityError e)"
proof -
  have c: "passes_vote vote j True = Inl e \<Longrightarrow> is_QuorumError e \<or> is_MajorityError e" for j
    by (rule passes_vote_error_class)
  have "stage p = BillStage.SEJM_DELIBERATION \<and> chamber vote = SEJM
      \<and> passes_vote vote SIMPLE True = Inl e \<longrightarrow>
        sejm_vote vote p = (Inl e, transition p BillStage.REJECTED ''Sejm rejected'')"
    using c [of SIMPLE] by (auto simp: sejm_vote_def require_stage_admits)
  moreover have "stage p \<in> {BillStage.SENATE_AMENDED, BillStage.SENATE_REJECTED}
      \<and> chamber vote = SEJM \<and> passes_vote vote ABSOLUTE True = Inl e \<longrightarrow>
        sejm_override_senate vote p =
          (Inl e, transition p BillStage.REJECTED ''Sejm failed to override Senate'')"
    using c [of ABSOLUTE] by (auto simp: sejm_override_senate_def require_stage_admits)
  moreover have "stage p = BillStage.VETOED \<and> chamber vote = SEJM
      \<and> passes_vote vote THREE_FIFTHS True = Inl e \<longrightarrow>
        sejm_override_veto vote p =
          (Inl e, transition p BillStage.REJECTED ''Veto override failed'')"
    using c [of THREE_FIFTHS] by (auto simp: sejm_override_veto_def require_stage_admits)
  moreover have "stage p = BillStage.SENATE_DELIBERATION \<and> chamber vote = SENATE
      \<and> passes_vote vote SIMPLE True = Inl e \<longrightarrow>
        senate_amends vote p = (Inl e, p) \<and> senate_rejects vote p = (Inl e, p)"
    by (simp add: senate_amends_def senate_rejects_def require_stage_admits)
  moreover have "stage (transition p BillStage.REJECTED note) = BillStage.REJECTED"
    by (simp add: transition_def)
  ultimately show ?thesis using c [of k] by blast
qed

text \<open>
  The failing votes of the tests: 150 for and 200 against in the first vote; 250 for of
  440 present against a veto, and against the Senate's amendments 200 of the 460
  statutory members; in the Senate, 40 for and 55 against.
\<close>

theorem vote_failure_outcome_witness:
  "raises is_MajorityError
     (fst (sejm_vote sejm_fail_vote (snd (run [Begin_sejm_deliberation] process))))
   \<and> stage (snd (sejm_vote sejm_fail_vote (snd (run [Begin_sejm_deliberation] process))))
       = BillStage.REJECTED
   \<and> raises is_MajorityError
       (fst (sejm_override_veto sejm_pass_vote
         (snd (run [Begin_sejm_deliberation, Sejm_vote sejm_pass_vote, Send_to_senate,
                    Senate_accepts, Send_to_president, President_vetoes] process))))
   \<and> stage (snd (sejm_override_veto sejm_pass_vote
         (snd (run [Begin_sejm_deliberation, Sejm_vote sejm_pass_vote, Send_to_senate,
                    Senate_accepts, Send_to_president, President_vetoes] process))))
       = BillStage.REJECTED
   \<and> stage (snd (sejm_override_senate (VoteRecord_new SEJM 200 230 0)
         (snd (run [Begin_sejm_deliberation, Sejm_vote sejm_pass_vote, Send_to_senate,
                    Senate_amends senate_pass_vote] process))))
       = BillStage.REJECTED
   \<and> senate_amends (VoteRecord_new SENATE 40 55 5)
         (snd (run [Begin_sejm_deliberation, Sejm_vote sejm_pass_vote, Send_to_senate] process))
       = (Inl (MajorityError ''Simple majority not reached: 40 for, 55 against'' ''120''),
          snd (run [Begin_sejm_deliberation, Sejm_vote sejm_pass_vote, Send_to_senate] process))"
proof -
  let ?a = "snd (run [Begin_sejm_deliberation] process)"
  let ?b = "snd (run [Begin_sejm_deliberation, Sejm_vote sejm_pass_vote, Send_to_senate,
                      Senate_accepts, Send_to_president, President_vetoes] process)"
  let ?c = "snd (run [Begin_sejm_deliberation, Sejm_vote sejm_pass_vote, Send_to_senate,
                      Senate_amends senate_pass_vote] process)"
  let ?d = "snd (run [Begin_sejm_deliberation, Sejm_vote sejm_pass_vote, Send_to_senate] process)"
  have a: "stage ?a = BillStage.SEJM_DELIBERATION"
    by (simp add: process_eval)
  have b: "stage ?b = BillStage.VETOED"
    by (simp add: process_eval sejm_pass_vote_def)
  have c: "stage ?c \<in> {BillStage.SENATE_AMENDED, BillStage.SENATE_REJECTED}"
    by (simp add: process_eval sejm_pass_vote_def senate_pass_vote_def)
  have d: "stage ?d = BillStage.SENATE_DELIBERATION"
    by (simp add: process_eval sejm_pass_vote_def)
  have va: "chamber sejm_fail_vote = SEJM \<and> passes_vote sejm_fail_vote SIMPLE True =
      Inl (MajorityError ''Simple majority not reached: 150 for, 200 against'' ''120'')"
    by (simp add: sejm_fail_vote_def vote_eval)
  have vb: "chamber sejm_pass_vote = SEJM \<and> passes_vote sejm_pass_vote THREE_FIFTHS True =
      Inl (MajorityError ''Three-fifths majority not reached: 250 for of 440 present'' ''120'')"
    by (simp add: sejm_pass_vote_def vote_eval)
  have vc: "chamber (VoteRecord_new SEJM 200 230 0) = SEJM
      \<and> passes_vote (VoteRecord_new SEJM 200 230 0) ABSOLUTE True =
      Inl (MajorityError
        ''Absolute majority not reached: 200 for, need more than 230 of 460 statutory members''
        ''120'')"
    by (simp add: vote_eval)
  have vd: "chamber (VoteRecord_new SENATE 40 55 5) = SENATE
      \<and> passes_vote (VoteRecord_new SENATE 40 55 5) SIMPLE True =
      Inl (MajorityError ''Simple majority not reached: 40 for, 55 against'' ''120'')"
    by (simp add: vote_eval)
  have ra: "sejm_vote sejm_fail_vote ?a =
      (Inl (MajorityError ''Simple majority not reached: 150 for, 200 against'' ''120''),
       transition ?a BillStage.REJECTED ''Sejm rejected'')"
    using vote_failure_outcome [of ?a sejm_fail_vote] a va by blast
  have rb: "sejm_override_veto sejm_pass_vote ?b =
      (Inl (MajorityError ''Three-fifths majority not reached: 250 for of 440 present'' ''120''),
       transition ?b BillStage.REJECTED ''Veto override failed'')"
    using vote_failure_outcome [of ?b sejm_pass_vote] b vb by blast
  have rc: "sejm_override_senate (VoteRecord_new SEJM 200 230 0) ?c =
      (Inl (MajorityError
        ''Absolute majority not reached: 200 for, need more than 230 of 460 statutory members''
        ''120''),
       transition ?c BillStage.REJECTED ''Sejm failed to override Senate'')"
    using vote_failure_outcome [of ?c "VoteRecord_new SEJM 200 230 0"] c vc by blast
  have rd: "senate_amends (VoteRecord_new SENATE 40 55 5) ?d =
      (Inl (MajorityError ''Simple majority not reached: 40 for, 55 against'' ''120''), ?d)"
    using vote_failure_outcome [of ?d "VoteRecord_new SENATE 40 55 5"] d vd by blast
  have t: "stage (transition q BillStage.REJECTED n) = BillStage.REJECTED" for q n
    by (simp add: transition_def)
  show ?thesis
    unfolding ra rb rc rd by (simp add: raises_def t del: run.simps)
qed

text \<open>
  The claim as stated fails for the Senate's votes: after a failed vote on amendments, and
  after a failed vote on rejection, the error is raised and the bill is still in
  SENATE_DELIBERATION, not in REJECTED.
\<close>

theorem senate_vote_failure_counterexample:
  "fst (run [Begin_sejm_deliberation, Sejm_vote sejm_pass_vote, Send_to_senate,
             Senate_amends (VoteRecord_new SENATE 40 55 5)] process)
     = Inl (MajorityError ''Simple majority not reached: 40 for, 55 against'' ''120'')
   \<and> stage (snd (run [Begin_sejm_deliberation, Sejm_vote sejm_pass_vote, Send_to_senate,
             Senate_amends (VoteRecord_new SENATE 40 55 5)] process))
     = BillStage.SENATE_DELIBERATION
   \<and> fst (run [Begin_sejm_deliberation, Sejm_vote sejm_pass_vote, Send_to_senate,
             Senate_rejects (VoteRecord_new SENATE 40 55 5)] process)
     = Inl (MajorityError ''Simple majority not reached: 40 for, 55 against'' ''120'')
   \<and> stage (snd (run [Begin_sejm_deliberation, Sejm_vote sejm_pass_vote, Send_to_senate,
             Senate_rejects (VoteRecord_new SENATE 40 55 5)] process))
     = BillStage.SENATE_DELIBERATION
   \<and> BillStage.SENATE_DELIBERATION \<noteq> BillStage.REJECTED"
  by (simp add: process_eval sejm_pass_vote_def)

section \<open>The history of the legislative process\<close>



















section \<open>Properties of government formation\<close>

lemmas formation_defs =
  president_designates_def sejm_confidence_first_attempt_def sejm_elects_pm_def
  president_appoints_third_attempt_def require_stage_gf_def GovernmentFormation_new_def

text \<open>
  C4: a new formation is at PRESIDENT_DESIGNATES and \<open>president_designates\<close> moves it to
  CONFIDENCE_VOTE. Each of the three votes returns normally in its stage, whatever the
  tally: the first and the second test \<open>passes_vote\<close> with ABSOLUTE, the third with
  SIMPLE; a passing vote sets the stage to APPOINTED, a failing one to SEJM_ELECTS, to
  PRESIDENT_APPOINTS_RETRY and to FAILED in turn. Three failing votes visit
  PRESIDENT_DESIGNATES, CONFIDENCE_VOTE, SEJM_ELECTS, PRESIDENT_APPOINTS_RETRY, FAILED, and
  no call raises.
\<close>

theorem formation_three_attempts:
  "president_designates GovernmentFormation_new
     = (Inr (), \<lparr>GovernmentFormation.stage = CONFIDENCE_VOTE\<rparr>)
   \<and> (GovernmentFormation.stage g = CONFIDENCE_VOTE \<longrightarrow>
        sejm_confidence_first_attempt vote g =
          (Inr (), g\<lparr>GovernmentFormation.stage :=
             if returns (passes_vote vote ABSOLUTE True) then APPOINTED else SEJM_ELECTS\<rparr>))
   \<and> (GovernmentFormation.stage g = SEJM_ELECTS \<longrightarrow>
        sejm_elects_pm vote g =
          (Inr (), g\<lparr>GovernmentFormation.stage :=
             if returns (passes_vote vote ABSOLUTE True) then APPOINTED
             else PRESIDENT_APPOINTS_RETRY\<rparr>))
   \<and> (GovernmentFormation.stage g = PRESIDENT_APPOINTS_RETRY \<longrightarrow>
        president_appoints_third_attempt vote g =
          (Inr (), g\<lparr>GovernmentFormation.stage :=
             if returns (passes_vote vote SIMPLE True) then APPOINTED else FAILED\<rparr>))
   \<and> (\<not> returns (passes_vote v1 ABSOLUTE True) \<and> \<not> returns (passes_vote v2 ABSOLUTE True)
        \<and> \<not> returns (passes_vote v3 SIMPLE True) \<longrightarrow>
        trace_gf [President_designates, Sejm_confidence_first_attempt v1, Sejm_elects_pm v2,
                  President_appoints_third_attempt v3] GovernmentFormation_new
          = [PRESIDENT_DESIGNATES, CONFIDENCE_VOTE, SEJM_ELECTS, PRESIDENT_APPOINTS_RETRY, FAILED]
        \<and> run_gf [President_designates, Sejm_confidence_first_attempt v1, Sejm_elects_pm v2,
                  President_appoints_third_attempt v3] GovernmentFormation_new
          = (Inr (), \<lparr>GovernmentFormation.stage = FAILED\<rparr>))"
proof -
  have d: "president_designates GovernmentFormation_new
     = (Inr (), \<lparr>GovernmentFormation.stage = CONFIDENCE_VOTE\<rparr>)"
    by (simp add: formation_defs)
  have a1: "GovernmentFormation.stage h = CONFIDENCE_VOTE \<longrightarrow>
        sejm_confidence_first_attempt v h =
          (Inr (), h\<lparr>GovernmentFormation.stage :=
             if returns (passes_vote v ABSOLUTE True) then APPOINTED else SEJM_ELECTS\<rparr>)" for h v
    by (simp add: formation_defs returns_def split: sum.split)
  have a2: "GovernmentFormation.stage h = SEJM_ELECTS \<longrightarrow>
        sejm_elects_pm v h =
          (Inr (), h\<lparr>GovernmentFormation.stage :=
             if returns (passes_vote v ABSOLUTE True) then APPOINTED
             else PRESIDENT_APPOINTS_RETRY\<rparr>)" for h v
    by (simp add: formation_defs returns_def split: sum.split)
  have a3: "GovernmentFormation.stage h = PRESIDENT_APPOINTS_RETRY \<longrightarrow>
        president_appoints_third_attempt v h =
          (Inr (), h\<lparr>GovernmentFormation.stage :=
             if returns (passes_vote v SIMPLE True) then APPOINTED else FAILED\<rparr>)" for h v
    by (simp add: formation_defs returns_def split: sum.split)
  have t: "\<not> returns (passes_vote v1 ABSOLUTE True) \<and> \<not> returns (passes_vote v2 ABSOLUTE True)
        \<and> \<not> returns (passes_vote v3 SIMPLE True) \<longrightarrow>
        trace_gf [President_designates, Sejm_confidence_first_attempt v1, Sejm_elects_pm v2,
                  President_appoints_third_attempt v3] GovernmentFormation_new
          = [PRESIDENT_DESIGNATES, CONFIDENCE_VOTE, SEJM_ELECTS, PRESIDENT_APPOINTS_RETRY, FAILED]
        \<and> run_gf [President_designates, Sejm_confidence_first_attempt v1, Sejm_elects_pm v2,
                  President_appoints_third_attempt v3] GovernmentFormation_new
          = (Inr (), \<lparr>GovernmentFormation.stage = FAILED\<rparr>)"
    using a1 [of "\<lparr>GovernmentFormation.stage = CONFIDENCE_VOTE\<rparr>" v1]
      a2 [of "\<lparr>GovernmentFormation.stage = SEJM_ELECTS\<rparr>" v2]
      a3 [of "\<lparr>GovernmentFormation.stage = PRESIDENT_APPOINTS_RETRY\<rparr>" v3]
    by (simp add: d) (simp add: GovernmentFormation_new_def)
  from d a1 [of g vote] a2 [of g vote] a3 [of g vote] t show ?thesis by blast
qed

text \<open>
  200 votes for in the 460-member Sejm fail each time; 231 pass the first attempt, and
  240 against 200 pass the third.
\<close>

theorem formation_three_attempts_witness:
  "trace_gf [President_designates,
             Sejm_confidence_first_attempt (VoteRecord_new SEJM 200 230 0),
             Sejm_elects_pm (VoteRecord_new SEJM 200 230 0),
             President_appoints_third_attempt (VoteRecord_new SEJM 200 230 0)]
      GovernmentFormation_new
     = [PRESIDENT_DESIGNATES, CONFIDENCE_VOTE, SEJM_ELECTS, PRESIDENT_APPOINTS_RETRY, FAILED]
   \<and> run_gf [President_designates,
             Sejm_confidence_first_attempt (VoteRecord_new SEJM 200 230 0),
             Sejm_elects_pm (VoteRecord_new SEJM 200 230 0),
             President_appoints_third_attempt (VoteRecord_new SEJM 200 230 0)]
      GovernmentFormation_new
     = (Inr (), \<lparr>GovernmentFormation.stage = FAILED\<rparr>)
   \<and> sejm_confidence_first_attempt (VoteRecord_new SEJM 231 200 10)
        \<lparr>GovernmentFormation.stage = CONFIDENCE_VOTE\<rparr>
     = (Inr (), \<lparr>GovernmentFormation.stage = APPOINTED\<rparr>)
   \<and> sejm_elects_pm (VoteRecord_new SEJM 231 200 0)
        \<lparr>GovernmentFormation.stage = SEJM_ELECTS\<rparr>
     = (Inr (), \<lparr>GovernmentFormation.stage = APPOINTED\<rparr>)
   \<and> president_appoints_third_attempt (VoteRecord_new SEJM 240 200 0)
        \<lparr>GovernmentFormation.stage = PRESIDENT_APPOINTS_RETRY\<rparr>
     = (Inr (), \<lparr>GovernmentFormation.stage = APPOINTED\<rparr>)"
proof -
  have f: "\<not> returns (passes_vote (VoteRecord_new SEJM 200 230 0) ABSOLUTE True)"
    "\<not> returns (passes_vote (VoteRecord_new SEJM 200 230 0) SIMPLE True)"
    by (simp_all add: returns_def vote_eval)
  have s: "returns (passes_vote (VoteRecord_new SEJM 231 200 10) ABSOLUTE True)"
    "returns (passes_vote (VoteRecord_new SEJM 231 200 0) ABSOLUTE True)"
    "returns (passes_vote (VoteRecord_new SEJM 240 200 0) SIMPLE True)"
    by (simp_all add: returns_def vote_eval)
  show ?thesis
    using f s
      formation_three_attempts [where ?v1.0 = "VoteRecord_new SEJM 200 230 0"
        and ?v2.0 = "VoteRecord_new SEJM 200 230 0" and ?v3.0 = "VoteRecord_new SEJM 200 230 0"
        and g = "\<lparr>GovernmentFormation.stage = CONFIDENCE_VOTE\<rparr>"
        and vote = "VoteRecord_new SEJM 231 200 10"]
      formation_three_attempts [where g = "\<lparr>GovernmentFormation.stage = SEJM_ELECTS\<rparr>"
        and vote = "VoteRecord_new SEJM 231 200 0"]
      formation_three_attempts [where g = "\<lparr>GovernmentFormation.stage = PRESIDENT_APPOINTS_RETRY\<rparr>"
        and vote = "VoteRecord_new SEJM 240 200 0"]
    by (simp del: run_gf.simps trace_gf.simps)
qed

section \<open>Properties of the amendment process\<close>

lemmas amendment_defs =
  first_reading_def sejm_vote_amendment_def senate_vote_def request_referendum_def
  referendum_result_def president_sign_def complete_def touches_protected_chapters_def
  REFERENDUM_CHAPTERS_def

lemma constructor_fixtures:
  "AmendmentProcess_new ''Zmiana art. 100'' ''Senate'' {4} = Inr standard_amendment"
  "AmendmentProcess_new ''Zmiana art. 1'' ''President'' {1} = Inr protected_amendment"
  by (simp_all add: AmendmentProcess_new_def INITIATORS_def standard_amendment_def
      protected_amendment_def)

text \<open>
  C8: \<open>request_referendum\<close> returns exactly when the amendment is at SENATE_PASSED and
  its affected chapters meet \<open>{1, 2, 12}\<close>; it then records the request and moves the
  stage to REFERENDUM_REQUESTED, and otherwise raises \<open>AmendmentError\<close> and changes
  nothing. An amendment that meets no protected chapter is refused the referendum right
  after both chambers passed it. One that meets a protected chapter reaches ADOPTED from
  SENATE_PASSED both through an approved referendum and through the President's signature
  alone.
\<close>

theorem request_referendum_iff:
  "returns (fst (request_referendum a))
     = (AmendmentProcess.stage a = AmendmentStage.SENATE_PASSED
        \<and> affected_chapters a \<inter> {1, 2, 12} \<noteq> {})
   \<and> (returns (fst (request_referendum a)) \<longrightarrow>
        request_referendum a =
          (Inr (), a\<lparr>referendum_requested := True,
                      AmendmentProcess.stage := AmendmentStage.REFERENDUM_REQUESTED\<rparr>))
   \<and> (\<not> returns (fst (request_referendum a)) \<longrightarrow>
        raises is_AmendmentError (fst (request_referendum a)) \<and> snd (request_referendum a) = a)
   \<and> (AmendmentProcess.stage a = AmendmentStage.INITIATED
        \<and> chamber v1 = SEJM \<and> returns (passes_vote v1 TWO_THIRDS True)
        \<and> chamber v2 = SENATE \<and> returns (passes_vote v2 ABSOLUTE True)
        \<and> affected_chapters a \<inter> {1, 2, 12} = {} \<longrightarrow>
        run_amendment [First_reading, Sejm_vote_amendment v1, Senate_vote v2, Request_referendum] a
          = (Inl (AmendmentError
               ''Referendum only available for amendments to Chapters I, II, or XII'' ''235(6)''),
             a\<lparr>AmendmentProcess.stage := AmendmentStage.SENATE_PASSED\<rparr>))
   \<and> (AmendmentProcess.stage a = AmendmentStage.SENATE_PASSED
        \<and> affected_chapters a \<inter> {1, 2, 12} \<noteq> {} \<longrightarrow>
        run_amendment [Request_referendum, Referendum_result True, President_sign, Complete] a
          = (Inr (), a\<lparr>referendum_requested := True,
                        AmendmentProcess.stage := AmendmentStage.ADOPTED\<rparr>)
        \<and> run_amendment [President_sign, Complete] a
          = (Inr (), a\<lparr>AmendmentProcess.stage := AmendmentStage.ADOPTED\<rparr>))"
proof -
  have r: "returns (fst (request_referendum a))
     = (AmendmentProcess.stage a = AmendmentStage.SENATE_PASSED
        \<and> affected_chapters a \<inter> {1, 2, 12} \<noteq> {})"
    by (simp add: amendment_defs returns_def)
  have s: "returns (fst (request_referendum a)) \<longrightarrow>
        request_referendum a =
          (Inr (), a\<lparr>referendum_requested := True,
                      AmendmentProcess.stage := AmendmentStage.REFERENDUM_REQUESTED\<rparr>)"
    by (simp add: amendment_defs returns_def)
  have f: "\<not> returns (fst (request_referendum a)) \<longrightarrow>
        raises is_AmendmentError (fst (request_referendum a)) \<and> snd (request_referendum a) = a"
    by (simp add: amendment_defs returns_def raises_def)
  have n: "AmendmentProcess.stage a = AmendmentStage.INITIATED
        \<and> chamber v1 = SEJM \<and> returns (passes_vote v1 TWO_THIRDS True)
        \<and> chamber v2 = SENATE \<and> returns (passes_vote v2 ABSOLUTE True)
        \<and> affected_chapters a \<inter> {1, 2, 12} = {} \<longrightarrow>
        run_amendment [First_reading, Sejm_vote_amendment v1, Senate_vote v2, Request_referendum] a
          = (Inl (AmendmentError
               ''Referendum only available for amendments to Chapters I, II, or XII'' ''235(6)''),
             a\<lparr>AmendmentProcess.stage := AmendmentStage.SENATE_PASSED\<rparr>)"
    by (auto simp: amendment_defs returns_def split: sum.splits)
  have p: "AmendmentProcess.stage a = AmendmentStage.SENATE_PASSED
        \<and> affected_chapters a \<inter> {1, 2, 12} \<noteq> {} \<longrightarrow>
        run_amendment [Request_referendum, Referendum_result True, President_sign, Complete] a
          = (Inr (), a\<lparr>referendum_requested := True,
                        AmendmentProcess.stage := AmendmentStage.ADOPTED\<rparr>)
        \<and> run_amendment [President_sign, Complete] a
          = (Inr (), a\<lparr>AmendmentProcess.stage := AmendmentStage.ADOPTED\<rparr>)"
    by (simp add: amendment_defs)
  from r s f n p show ?thesis by blast
qed

text \<open>
  The amendment to Chapter IV passes both chambers (310 of 400 in the Sejm, 51 of the 100
  senators) and is refused the referendum; the amendment to Chapter I, after the same two
  votes, is adopted on both paths.
\<close>

theorem request_referendum_iff_witness:
  "run_amendment [First_reading, Sejm_vote_amendment sejm_2_3_vote,
       Senate_vote senate_absolute_vote, Request_referendum] standard_amendment
     = (Inl (AmendmentError
          ''Referendum only available for amendments to Chapters I, II, or XII'' ''235(6)''),
        standard_amendment\<lparr>AmendmentProcess.stage := AmendmentStage.SENATE_PASSED\<rparr>)
   \<and> snd (run_amendment [First_reading, Sejm_vote_amendment sejm_2_3_vote,
       Senate_vote senate_absolute_vote] protected_amendment)
     = protected_amendment\<lparr>AmendmentProcess.stage := AmendmentStage.SENATE_PASSED\<rparr>
   \<and> request_referendum
        (protected_amendment\<lparr>AmendmentProcess.stage := AmendmentStage.SENATE_PASSED\<rparr>)
     = (Inr (), protected_amendment\<lparr>referendum_requested := True,
          AmendmentProcess.stage := AmendmentStage.REFERENDUM_REQUESTED\<rparr>)
   \<and> run_amendment [Request_referendum, Referendum_result True, President_sign, Complete]
        (protected_amendment\<lparr>AmendmentProcess.stage := AmendmentStage.SENATE_PASSED\<rparr>)
     = (Inr (), protected_amendment\<lparr>referendum_requested := True,
          AmendmentProcess.stage := AmendmentStage.ADOPTED\<rparr>)
   \<and> run_amendment [President_sign, Complete]
        (protected_amendment\<lparr>AmendmentProcess.stage := AmendmentStage.SENATE_PASSED\<rparr>)
     = (Inr (), protected_amendment\<lparr>AmendmentProcess.stage := AmendmentStage.ADOPTED\<rparr>)
   \<and> raises is_AmendmentError (fst (request_referendum protected_amendment))"
proof -
  let ?q = "protected_amendment\<lparr>AmendmentProcess.stage := AmendmentStage.SENATE_PASSED\<rparr>"
  have v: "chamber sejm_2_3_vote = SEJM" "returns (passes_vote sejm_2_3_vote TWO_THIRDS True)"
    "chamber senate_absolute_vote = SENATE"
    "returns (passes_vote senate_absolute_vote ABSOLUTE True)"
    by (simp_all add: sejm_2_3_vote_def senate_absolute_vote_def returns_def vote_eval)
  have a: "AmendmentProcess.stage standard_amendment = AmendmentStage.INITIATED"
    "affected_chapters standard_amendment \<inter> {1, 2, 12} = {}"
    "AmendmentProcess.stage protected_amendment = AmendmentStage.INITIATED"
    by (simp_all add: standard_amendment_def protected_amendment_def)
  have q: "AmendmentProcess.stage ?q = AmendmentStage.SENATE_PASSED"
    "affected_chapters ?q \<inter> {1, 2, 12} \<noteq> {}"
    by (simp_all add: protected_amendment_def)
  have b: "snd (run_amendment [First_reading, Sejm_vote_amendment sejm_2_3_vote,
       Senate_vote senate_absolute_vote] protected_amendment) = ?q"
    using v by (auto simp: amendment_defs protected_amendment_def returns_def split: sum.splits)
  have "run_amendment [First_reading, Sejm_vote_amendment sejm_2_3_vote,
       Senate_vote senate_absolute_vote, Request_referendum] standard_amendment
     = (Inl (AmendmentError
          ''Referendum only available for amendments to Chapters I, II, or XII'' ''235(6)''),
        standard_amendment\<lparr>AmendmentProcess.stage := AmendmentStage.SENATE_PASSED\<rparr>)"
    using request_referendum_iff [of standard_amendment sejm_2_3_vote senate_absolute_vote] v a
    by blast
  moreover have "request_referendum ?q
     = (Inr (), protected_amendment\<lparr>referendum_requested := True,
          AmendmentProcess.stage := AmendmentStage.REFERENDUM_REQUESTED\<rparr>)
   \<and> run_amendment [Request_referendum, Referendum_result True, President_sign, Complete] ?q
     = (Inr (), protected_amendment\<lparr>referendum_requested := True,
          AmendmentProcess.stage := AmendmentStage.ADOPTED\<rparr>)
   \<and> run_amendment [President_sign, Complete] ?q
     = (Inr (), protected_amendment\<lparr>AmendmentProcess.stage := AmendmentStage.ADOPTED\<rparr>)"
  proof -
    have "request_referendum ?q
       = (Inr (), ?q\<lparr>referendum_requested := True,
            AmendmentProcess.stage := AmendmentStage.REFERENDUM_REQUESTED\<rparr>)
     \<and> run_amendment [Request_referendum, Referendum_result True, President_sign, Complete] ?q
       = (Inr (), ?q\<lparr>referendum_requested := True,
            AmendmentProcess.stage := AmendmentStage.ADOPTED\<rparr>)
     \<and> run_amendment [President_sign, Complete] ?q
       = (Inr (), ?q\<lparr>AmendmentProcess.stage := AmendmentStage.ADOPTED\<rparr>)"
      using request_referendum_iff [of ?q] q by blast
    then show ?thesis by (simp del: run_amendment.simps)
  qed
  moreover have "raises is_AmendmentError (fst (request_referendum protected_amendment))"
    using request_referendum_iff [of protected_amendment] a by simp
  ultimately show ?thesis using b by blast
qed

end
